theory Spec2Isabelle
  imports Main "HOL-Library.AList"
begin

section \<open>Python strings and exceptions\<close>

text \<open>
  Strings are \<^typ>\<open>string\<close>, that is lists of bytes; the texts of the program are ASCII
  apart from one UTF-8 sparkles sign, which is written out byte by byte below.
  \<open>str.lower\<close>, \<open>str.upper\<close> and \<open>str.title\<close> are modelled on the ASCII letters:
  the model follows the program on ASCII texts, and says nothing of a text with a
  capital letter outside ASCII, which Python folds as well.
  The exceptions the modelled code can raise are values of \<open>py_error\<close>.
\<close>

datatype py_error =
    AttributeError | KeyError | TypeError | IndexError
  | CypherSyntaxError | ParameterMissing | ServiceUnavailable

definition char_lower :: "char \<Rightarrow> char" where
  "char_lower c =
     (case map_of (zip ''ABCDEFGHIJKLMNOPQRSTUVWXYZ'' ''abcdefghijklmnopqrstuvwxyz'') c of
        None \<Rightarrow> c | Some l \<Rightarrow> l)"

definition char_upper :: "char \<Rightarrow> char" where
  "char_upper c =
     (case map_of (zip ''abcdefghijklmnopqrstuvwxyz'' ''ABCDEFGHIJKLMNOPQRSTUVWXYZ'') c of
        None \<Rightarrow> c | Some u \<Rightarrow> u)"

definition str_lower :: "string \<Rightarrow> string" where
  "str_lower s = map char_lower s"

text \<open>\<open>s.replace(a, b)\<close> for one-character \<open>a\<close> and \<open>b\<close>, the only use in the program.\<close>

definition str_replace :: "char \<Rightarrow> char \<Rightarrow> string \<Rightarrow> string" where
  "str_replace a b s = map (\<lambda>c. if c = a then b else c) s"

text \<open>\<open>s.startswith(p)\<close>\<close>

fun startswith :: "string \<Rightarrow> string \<Rightarrow> bool" where
  "startswith s [] = True"
| "startswith [] (p # ps) = False"
| "startswith (c # cs) (p # ps) = (c = p \<and> startswith cs ps)"

text \<open>\<open>sub in s\<close> on strings: \<open>sub\<close> occurs in \<open>s\<close> as a contiguous piece.\<close>

fun str_in :: "string \<Rightarrow> string \<Rightarrow> bool" where
  "str_in sub [] = (sub = [])"
| "str_in sub (c # cs) = (startswith (c # cs) sub \<or> str_in sub cs)"

text \<open>
  \<open>s.title()\<close>: a letter that follows a letter is lower-cased, any other letter is
  upper-cased; the flag says whether the previous character was a letter.
\<close>

fun title_from :: "bool \<Rightarrow> string \<Rightarrow> string" where
  "title_from prev [] = []"
| "title_from prev (c # cs) =
     (if char_lower c \<noteq> c \<or> char_upper c \<noteq> c
      then (if prev then char_lower c else char_upper c) # title_from True cs
      else c # title_from False cs)"

definition str_title :: "string \<Rightarrow> string" where
  "str_title s = title_from False s"

text \<open>\<open>sep.join(xs)\<close> on a list of strings.\<close>

fun join :: "string \<Rightarrow> string list \<Rightarrow> string" where
  "join sep [] = []"
| "join sep [x] = x"
| "join sep (x # y # ys) = x @ sep @ join sep (y # ys)"

text \<open>What an f-string prints for a value that is a string or \<open>None\<close>.\<close>

definition py_str :: "string option \<Rightarrow> string" where
  "py_str v = (case v of None \<Rightarrow> ''None'' | Some s \<Rightarrow> s)"

section \<open>config.py: the schema of the knowledge graph\<close>

definition KG_SCHEMA_nodes :: "string list" where
  "KG_SCHEMA_nodes =
     [''DataProduct'', ''Satellite'', ''Sensor'', ''Parameter'', ''DataFormat'',
      ''ApplicationArea'', ''Service'', ''TimeResolution'', ''SpatialResolution'',
      ''Institution'']"

definition KG_SCHEMA_relationships :: "string list" where
  "KG_SCHEMA_relationships =
     [''PROVIDES'', ''OBSERVED_BY'', ''FROM_SATELLITE'', ''USES_SENSOR'',
      ''AVAILABLE_IN_FORMAT'', ''APPLICABLE_FOR'', ''HAS_TIME_RESOLUTION'',
      ''HAS_SPATIAL_RESOLUTION'', ''OFFERS_SERVICE'', ''PRODUCED_BY'']"

section \<open>nlu\_processor.py: NLUProcessor\<close>

definition known_entity_labels :: "string list" where
  "known_entity_labels = KG_SCHEMA_nodes"

definition known_relationship_types :: "string list" where
  "known_relationship_types = KG_SCHEMA_relationships"

text \<open>
  The dict literal \<open>self.mosdac_keywords\<close>, in the order it is written: a Python dict
  is iterated in insertion order, and no key occurs twice.
\<close>

definition mosdac_keywords :: "(string \<times> string) list" where
  "mosdac_keywords =
     [(''sea surface temperature'', ''DataProduct''),
      (''cloud top pressure'', ''DataProduct''),
      (''rainfall data'', ''DataProduct''),
      (''humidity data'', ''DataProduct''),
      (''wind speed'', ''DataProduct''),
      (''vegetation index'', ''DataProduct''),
      (''soil moisture'', ''DataProduct''),
      (''ozone concentration'', ''DataProduct''),
      (''aerosol optical depth'', ''DataProduct''),
      (''insat-3d'', ''Satellite''),
      (''insat-3dr'', ''Satellite''),
      (''kalpana-1'', ''Satellite''),
      (''oceansat-2'', ''Satellite''),
      (''megha-tropiques'', ''Satellite''),
      (''scatsat-1'', ''Satellite''),
      (''gisat-1'', ''Satellite''),
      (''imager'', ''Sensor''),
      (''sounder'', ''Sensor''),
      (''scatterometer'', ''Sensor''),
      (''temperature'', ''Parameter''),
      (''pressure'', ''Parameter''),
      (''wind'', ''Parameter''),
      (''humidity'', ''Parameter''),
      (''rainfall'', ''Parameter''),
      (''ozone'', ''Parameter''),
      (''aerosol'', ''Parameter''),
      (''netcdf'', ''DataFormat''),
      (''hdf'', ''DataFormat''),
      (''jpeg'', ''DataFormat''),
      (''geotiff'', ''DataFormat''),
      (''cyclone forecasting'', ''ApplicationArea''),
      (''weather forecasting'', ''ApplicationArea''),
      (''climate study'', ''ApplicationArea''),
      (''agricultural monitoring'', ''ApplicationArea''),
      (''oceanography'', ''ApplicationArea''),
      (''atmospheric research'', ''ApplicationArea''),
      (''data download'', ''Service''),
      (''visualization tool'', ''Service''),
      (''what data'', ''Query_DataProducts''),
      (''data on'', ''Query_DataProducts''),
      (''information about'', ''Query_Details''),
      (''details of'', ''Query_Details''),
      (''what is'', ''Query_Details_Object''),
      (''how to download'', ''Query_Download''),
      (''format of'', ''Query_Format''),
      (''time resolution'', ''Query_TimeResolution''),
      (''spatial resolution'', ''Query_SpatialResolution''),
      (''applications of'', ''Query_Applications''),
      (''what services'', ''Query_Services''),
      (''summarize'', ''Query_Summarize''),
      (''summarize this'', ''Query_Summarize''),
      (''make it concise'', ''Query_Summarize''),
      (''can you summarize'', ''Query_Summarize''),
      (''use cases'', ''Query_UseCases''),
      (''application ideas'', ''Query_UseCases''),
      (''how can I use this'', ''Query_UseCases'')]"

text \<open>
  A candidate entity, the dict \<open>{"text": .., "label": .., "type": ..}\<close> of the source.
\<close>

record raw_entity =
  ent_text :: string
  ent_label :: string
  ent_type :: string

text \<open>
  The dict \<open>process_query\<close> returns; its key \<open>"keywords"\<close> is the field
  \<open>nlu_keywords\<close>.
\<close>

record nlu_result =
  original_query :: string
  main_intent :: string
  entities :: "(string \<times> string) list"
  raw_entities :: "raw_entity list"
  nlu_keywords :: "string list"
  found_relationships :: "string list"

text \<open>
  The spaCy pipeline \<open>self.nlp\<close> is outside the repository: it is a parameter \<open>nlp\<close>
  that maps the lower-cased text to \<open>doc.ents\<close>, each span as the pair of its text and
  its label.  The first loop keeps the spans with one of six labels.
\<close>

definition ner_labels :: "string list" where
  "ner_labels = [''ORG'', ''PRODUCT'', ''LOC'', ''GPE'', ''NORP'', ''DATE'']"

definition ner_entities :: "(string \<times> string) list \<Rightarrow> raw_entity list" where
  "ner_entities doc_ents =
     map (\<lambda>(t, l). \<lparr>ent_text = t, ent_label = l, ent_type = ''NER''\<rparr>)
         (filter (\<lambda>(t, l). l \<in> set ner_labels) doc_ents)"

text \<open>
  The three lists the keyword loop appends to, and one round of that loop for the
  table entry \<open>(keyword, type_label)\<close>.
\<close>

record scan =
  scan_entities :: "raw_entity list"
  scan_intents :: "string list"
  scan_keywords :: "string list"

definition keyword_step :: "string \<Rightarrow> scan \<Rightarrow> string \<times> string \<Rightarrow> scan" where
  "keyword_step lowered s kv =
     (case kv of (keyword, type_label) \<Rightarrow>
        if str_in keyword lowered then
          (if startswith type_label ''Query_''
           then s\<lparr>scan_intents := scan_intents s @ [type_label]\<rparr>
           else if type_label \<in> set known_entity_labels
           then s\<lparr>scan_entities := scan_entities s @
                    [\<lparr>ent_text = keyword, ent_label = type_label, ent_type = ''Keyword''\<rparr>]\<rparr>
           else s\<lparr>scan_keywords := scan_keywords s @ [keyword]\<rparr>)
        else s)"

definition keyword_scan :: "(string \<Rightarrow> (string \<times> string) list) \<Rightarrow> string \<Rightarrow> scan" where
  "keyword_scan nlp text =
     foldl (keyword_step (str_lower text))
       \<lparr>scan_entities = ner_entities (nlp (str_lower text)), scan_intents = [],
        scan_keywords = []\<rparr>
       mosdac_keywords"

text \<open>The \<open>if\<close>/\<open>elif\<close> chain over the intent signals.\<close>

definition resolve_intent :: "string list \<Rightarrow> string" where
  "resolve_intent intents =
     (if ''Query_Download'' \<in> set intents then ''get_download_info''
      else if ''Query_Format'' \<in> set intents then ''get_data_format''
      else if ''Query_TimeResolution'' \<in> set intents then ''get_time_resolution''
      else if ''Query_SpatialResolution'' \<in> set intents then ''get_spatial_resolution''
      else if ''Query_Applications'' \<in> set intents then ''get_applications''
      else if ''Query_Services'' \<in> set intents then ''get_services''
      else if ''Query_DataProducts'' \<in> set intents then ''list_data_products''
      else if ''Query_Summarize'' \<in> set intents then ''summarize_info''
      else if ''Query_UseCases'' \<in> set intents then ''generate_use_cases''
      else if ''Query_Details'' \<in> set intents \<or> ''Query_Details_Object'' \<in> set intents
      then ''get_details''
      else ''general_query'')"

text \<open>The loop that turns \<open>general_query\<close> into \<open>get_details\<close>.\<close>

definition upgrade_intent :: "string \<Rightarrow> raw_entity list \<Rightarrow> string" where
  "upgrade_intent intent ents =
     (if intent = ''general_query''
      then (if list_ex (\<lambda>ent_info. ent_label ent_info \<in> set KG_SCHEMA_nodes
                                  \<or> ent_type ent_info \<in> set KG_SCHEMA_nodes) ents
            then ''get_details'' else intent)
      else intent)"

text \<open>
  \<open>unique_entities\<close> is a dict from label to text.  It is an association list in
  insertion order: \<^const>\<open>AList.update\<close> replaces the value of a key in place and
  puts a new key at the end, as a Python dict does.  One round of the last loop:
\<close>

definition refine_step :: "(string \<times> string) list \<Rightarrow> raw_entity \<Rightarrow> (string \<times> string) list" where
  "refine_step unique_entities ent =
     (if ent_label ent \<in> set known_entity_labels
      then AList.update (ent_label ent) (ent_text ent) unique_entities
      else if ent_type ent = ''NER'' \<and> ent_text ent \<notin> set (map snd unique_entities)
      then (if list_ex (\<lambda>(existing_label, existing_text).
                          str_in existing_text (ent_text ent)
                          \<and> existing_label \<in> set known_entity_labels) unique_entities
            then unique_entities
            else AList.update (ent_label ent) (ent_text ent) unique_entities)
      else unique_entities)"

definition process_query :: "(string \<Rightarrow> (string \<times> string) list) \<Rightarrow> string \<Rightarrow> nlu_result" where
  "process_query nlp text =
     (let s = keyword_scan nlp text
      in \<lparr>original_query = text,
          main_intent = upgrade_intent (resolve_intent (scan_intents s)) (scan_entities s),
          entities = foldl refine_step [] (scan_entities s),
          raw_entities = scan_entities s,
          nlu_keywords = scan_keywords s,
          found_relationships =
            filter (\<lambda>rel_type. str_in (str_replace CHR ''_'' CHR '' '' (str_lower rel_type))
                                       (str_lower text))
                   known_relationship_types\<rparr>)"

subsection \<open>The intent resolution as the specification words it\<close>

text \<open>
  The specification describes the resolution as a table of intent signals in priority
  order, the first signal present winning, with a default for the case that none fired.
  \<open>main_intent_by_priority\<close> follows those words; it is compared with the chain of the
  source, \<open>resolve_intent\<close> and \<open>upgrade_intent\<close>, below.
\<close>

definition intent_priority :: "(string list \<times> string) list" where
  "intent_priority =
     [([''Query_Download''], ''get_download_info''),
      ([''Query_Format''], ''get_data_format''),
      ([''Query_TimeResolution''], ''get_time_resolution''),
      ([''Query_SpatialResolution''], ''get_spatial_resolution''),
      ([''Query_Applications''], ''get_applications''),
      ([''Query_Services''], ''get_services''),
      ([''Query_DataProducts''], ''list_data_products''),
      ([''Query_Summarize''], ''summarize_info''),
      ([''Query_UseCases''], ''generate_use_cases''),
      ([''Query_Details'', ''Query_Details_Object''], ''get_details'')]"

definition first_signal :: "string list \<Rightarrow> (string list \<times> string) option" where
  "first_signal signals =
     find (\<lambda>(names, intent). list_ex (\<lambda>n. n \<in> set signals) names) intent_priority"

definition main_intent_by_priority :: "string list \<Rightarrow> raw_entity list \<Rightarrow> string" where
  "main_intent_by_priority signals ents =
     (case first_signal signals of
        Some (names, intent) \<Rightarrow> intent
      | None \<Rightarrow>
          if list_ex (\<lambda>e. ent_label e \<in> set known_entity_labels) ents
          then ''get_details'' else ''general_query'')"


subsection \<open>A recogniser for the examples\<close>

text \<open>
  A stand-in for the spaCy pipeline on the example sentences.  In a text that mentions
  "isro" it finds two spans with retained labels, one of them containing the other's
  text, and one span with a label that the first loop drops; in any other text it finds
  nothing.
\<close>

definition ner_example :: "string \<Rightarrow> (string \<times> string) list" where
  "ner_example t =
     (if str_in ''isro'' t
      then [(''isro'', ''ORG''), (''isro india'', ''GPE''), (''today'', ''TIME'')]
      else [])"

section \<open>kg\_manager.py: KnowledgeGraphManager\<close>

text \<open>
  The graph database is outside the repository.  Its state is a list of nodes in the
  order the engine scans them, each with labels and text properties (the ingestion only
  stores text), a list of relationships between node positions, and whether the server
  can be reached.
\<close>

type_synonym props = "(string \<times> string) list"

record gnode =
  node_labels :: "string list"
  node_props :: props

record grel =
  rel_from :: nat
  rel_kind :: string
  rel_to :: nat
  rel_props :: props

record store =
  reachable :: bool
  graph_nodes :: "gnode list"
  graph_rels :: "grel list"

text \<open>
  One map of the collected \<open>relationships\<close> column, and the dict that
  \<open>get_entity_details\<close> returns.  A field is \<open>None\<close> where Cypher yields \<open>null\<close>.
\<close>

record relationship =
  rel_type :: "string option"
  target_name :: "string option"
  target_label :: "string option"
  relationship_props :: "props option"

record details =
  node :: props
  relationships :: "relationship list"

text \<open>
  \<open>match_clause = f"(n:{{label}})" if entity_label else "(n)"\<close>: in an f-string the
  doubled braces are literal braces, so the text does not depend on the label.  An
  argument is truthy when it is a non-empty string.
\<close>

definition truthy :: "string option \<Rightarrow> bool" where
  "truthy v = (case v of None \<Rightarrow> False | Some s \<Rightarrow> s \<noteq> [])"

definition match_clause :: "string option \<Rightarrow> string" where
  "match_clause entity_label = (if truthy entity_label then ''(n:{label})'' else ''(n)'')"

definition entity_details_params :: "string \<Rightarrow> string option \<Rightarrow> props" where
  "entity_details_params entity_name entity_label =
     (case entity_label of
        Some l \<Rightarrow> if l \<noteq> [] then [(''entity_name'', entity_name), (''label'', l)]
                  else [(''entity_name'', entity_name)]
      | None \<Rightarrow> [(''entity_name'', entity_name)])"

text \<open>
  The Cypher text of \<open>get_entity_details\<close> is fixed apart from the node pattern after
  \<open>MATCH\<close>:
  \<^verbatim>\<open>MATCH <pattern> WHERE toLower(n.name) CONTAINS toLower($entity_name)
  OPTIONAL MATCH (n)-[r]-(m)
  RETURN n, COLLECT(DISTINCT {type: type(r), target_name: m.name,
    target_label: LABELS(m)[0], relationship_props: properties(r)}) AS relationships
  LIMIT 1\<close>
  The following definitions are that query read as a program.  A node pattern is
  \<open>(n)\<close> or \<open>(n:Label)\<close> with a label name of letters, digits and underscores; any
  other text, in particular \<open>(n:{label})\<close>, is a syntax error.
\<close>

definition ident_char :: "char \<Rightarrow> bool" where
  "ident_char c =
     (c \<in> set ''abcdefghijklmnopqrstuvwxyzABCDEFGHIJKLMNOPQRSTUVWXYZ0123456789_'')"

definition parse_node_pattern :: "string \<Rightarrow> string option option" where
  "parse_node_pattern p =
     (if p = ''(n)'' then Some None
      else if startswith p ''(n:'' \<and> 4 < length p \<and> last p = CHR '')''
              \<and> list_all ident_char (butlast (drop 3 p))
      then Some (Some (butlast (drop 3 p)))
      else None)"

text \<open>\<open>WHERE toLower(n.name) CONTAINS toLower($entity_name)\<close>, with the label if any.\<close>

definition node_matches :: "string option \<Rightarrow> string \<Rightarrow> gnode \<Rightarrow> bool" where
  "node_matches lab entity_name n =
     ((case lab of None \<Rightarrow> True | Some l \<Rightarrow> l \<in> set (node_labels n))
      \<and> (case map_of (node_props n) ''name'' of
           None \<Rightarrow> False
         | Some nm \<Rightarrow> str_in (str_lower entity_name) (str_lower nm)))"

text \<open>The map collected for the relationship \<open>r\<close> and the node \<open>m\<close> at its other end.\<close>

definition relationship_map :: "grel \<Rightarrow> gnode \<Rightarrow> relationship" where
  "relationship_map r m =
     \<lparr>rel_type = Some (rel_kind r),
      target_name = map_of (node_props m) ''name'',
      target_label = (case node_labels m of [] \<Rightarrow> None | l # ls \<Rightarrow> Some l),
      relationship_props = Some (rel_props r)\<rparr>"

text \<open>
  \<open>OPTIONAL MATCH (n)-[r]-(m)\<close> for the node at position \<open>i\<close>: every relationship that
  starts or ends there, in either direction.
\<close>

definition incident :: "store \<Rightarrow> nat \<Rightarrow> relationship list" where
  "incident st i =
     concat (map (\<lambda>r.
        (if rel_from r = i \<and> rel_to r < length (graph_nodes st)
         then [relationship_map r (graph_nodes st ! rel_to r)] else [])
        @ (if rel_to r = i \<and> rel_from r \<noteq> i \<and> rel_from r < length (graph_nodes st)
           then [relationship_map r (graph_nodes st ! rel_from r)] else []))
       (graph_rels st))"

text \<open>
  A node without relationships still gives one row of the optional match, with \<open>r\<close> and
  \<open>m\<close> null, so the collected list then holds one map of nulls.
\<close>

definition null_relationship :: relationship where
  "null_relationship =
     \<lparr>rel_type = None, target_name = None, target_label = None, relationship_props = None\<rparr>"

definition details_row :: "store \<Rightarrow> nat \<Rightarrow> details" where
  "details_row st i =
     \<lparr>node = node_props (graph_nodes st ! i),
      relationships = (if incident st i = [] then [null_relationship]
                       else remdups (incident st i))\<rparr>"

text \<open>\<open>session.run(query, parameters)\<close> and the loop over its result, for this query.\<close>

definition run_entity_details :: "store \<Rightarrow> string \<Rightarrow> props \<Rightarrow> py_error + details list" where
  "run_entity_details st pattern parameters =
     (if \<not> reachable st then Inl ServiceUnavailable
      else case parse_node_pattern pattern of
        None \<Rightarrow> Inl CypherSyntaxError
      | Some lab \<Rightarrow>
          (case map_of parameters ''entity_name'' of
             None \<Rightarrow> Inl ParameterMissing
           | Some entity_name \<Rightarrow>
               Inr (take 1 (map (details_row st)
                      (filter (\<lambda>i. node_matches lab entity_name (graph_nodes st ! i))
                         [0 ..< length (graph_nodes st)])))))"

text \<open>
  The manager holds \<open>self.driver\<close>; \<open>driver\<close> says that it is not \<open>None\<close>.  \<open>_connect\<close>
  sets it when the server can be reached.  \<open>_execute_query\<close> reconnects when there is no
  driver, gives \<open>[]\<close> when there still is none, and turns every exception of the run
  into \<open>[]\<close>.  The run is passed as a function of the store.
\<close>

record kg_manager =
  driver :: bool

definition connect :: "store \<Rightarrow> kg_manager \<Rightarrow> kg_manager" where
  "connect st kg = kg\<lparr>driver := reachable st\<rparr>"

definition execute_query ::
  "store \<Rightarrow> kg_manager \<Rightarrow> (store \<Rightarrow> py_error + 'r list) \<Rightarrow> 'r list \<times> kg_manager" where
  "execute_query st kg run =
     (let kg1 = (if \<not> driver kg then connect st kg else kg)
      in if \<not> driver kg1 then ([], kg1)
         else (case run st of
                 Inl e \<Rightarrow> ([], kg1)
               | Inr records \<Rightarrow> (records, kg1)))"

definition get_entity_details ::
  "store \<Rightarrow> kg_manager \<Rightarrow> string \<Rightarrow> string option \<Rightarrow> details option \<times> kg_manager" where
  "get_entity_details st kg entity_name entity_label =
     (case execute_query st kg
             (\<lambda>st. run_entity_details st (match_clause entity_label)
                      (entity_details_params entity_name entity_label)) of
        (records, kg1) \<Rightarrow>
          (case records of
             [] \<Rightarrow> (None, kg1)
           | record # rest \<Rightarrow> (Some record, kg1)))"

section \<open>bot\_logic.py: ISROBot\<close>

subsection \<open>The call to the generative service\<close>

text \<open>
  The web service is outside the repository.  What \<open>requests.post\<close>,
  \<open>raise_for_status\<close> and the reading of the payload can come to is one of the
  outcomes that the \<open>try\<close> block of \<open>_call_gemini_llm\<close> tells apart: the request fails
  or the status is bad (both a \<open>RequestException\<close>), the payload holds a generated text,
  the payload lacks one of \<open>candidates\<close>, \<open>content\<close>, \<open>parts\<close>, or anything else is
  raised.  \<open>post\<close> maps the chat history sent to that outcome.
\<close>

datatype gemini_reply =
    NetworkFailure
  | BadStatus nat
  | GeneratedText string
  | UnexpectedFormat
  | OtherException

definition connectivity_apology :: string where
  "connectivity_apology =
     ''I'm having trouble connecting to the generative AI right now. Please try again later.''"

text \<open>The \<open>try\<close> statement, lines 35 to 57.\<close>

definition gemini_request :: "(string list \<Rightarrow> gemini_reply) \<Rightarrow> string list \<Rightarrow> string" where
  "gemini_request post chat_history =
     (case post chat_history of
        GeneratedText generated_text \<Rightarrow> generated_text
      | UnexpectedFormat \<Rightarrow> ''I couldn't generate a response from the AI at this moment.''
      | NetworkFailure \<Rightarrow> connectivity_apology
      | BadStatus code \<Rightarrow> connectivity_apology
      | OtherException \<Rightarrow> ''An internal error occurred while processing your request.'')"

text \<open>
  \<open>chat_history = []\<close> and then \<open>chat_history.push(...)\<close>: a Python list has no
  attribute \<open>push\<close> (the method is \<open>append\<close>), so the attribute lookup raises
  \<open>AttributeError\<close>, whatever the list and the argument.  The statement stands before the
  \<open>try\<close>, so nothing catches it.
\<close>

definition list_push :: "'a list \<Rightarrow> 'a \<Rightarrow> py_error + 'a list" where
  "list_push xs x = Inl AttributeError"

definition call_gemini_llm :: "(string list \<Rightarrow> gemini_reply) \<Rightarrow> string \<Rightarrow> py_error + string" where
  "call_gemini_llm post prompt =
     (case list_push [] prompt of
        Inl e \<Rightarrow> Inl e
      | Inr chat_history \<Rightarrow> Inr (gemini_request post chat_history))"

subsection \<open>The bot and what it calls\<close>

text \<open>The two fields of the conversational memory.\<close>

record bot =
  last_detailed_response_content :: "string option"
  last_detailed_entity_name :: "string option"

definition cleared :: bot where
  "cleared = \<lparr>last_detailed_response_content = None, last_detailed_entity_name = None\<rparr>"

text \<open>
  A dict of the list \<open>get_related_entities\<close> returns, and a record of the product
  listing query; a value is \<open>None\<close> where the graph has none.
\<close>

record related_entity =
  related_name :: "string option"
  related_label :: "string option"
  related_type :: "string option"

record product =
  prod_name :: "string option"
  prod_description :: "string option"

text \<open>
  \<open>generate_response\<close> works through \<open>self.nlu_processor\<close>, \<open>self.kg_manager\<close> and
  \<open>self._call_gemini_llm\<close>.  They are the fields of \<open>services\<close>: the recogniser of the
  extractor, the three operations of the manager that the bot uses, and the client,
  which returns a text or raises.
\<close>

record services =
  svc_nlp :: "string \<Rightarrow> (string \<times> string) list"
  svc_entity_details :: "string \<Rightarrow> string option \<Rightarrow> details option"
  svc_related_entities :: "string \<Rightarrow> string \<Rightarrow> string \<Rightarrow> string \<Rightarrow> related_entity list"
  svc_execute_query :: "string \<Rightarrow> product list"
  svc_llm :: "string \<Rightarrow> py_error + string"

text \<open>
  The calls made on the manager and the client, in order; they are recorded next to the
  result so that a property can say which calls a request makes.
\<close>

datatype call =
    KG_entity_details string "string option"
  | KG_related_entities string string string string
  | KG_execute_query string
  | LLM string

text \<open>
  What one call of \<open>generate_response\<close> comes to: the text returned or the exception
  raised, the memory afterwards, and the calls made.
\<close>

record response =
  outcome :: "py_error + string"
  memory :: bot
  calls :: "call list"

definition NL :: string where
  "NL = [CHR 0x0A]"

definition SQ :: string where
  "SQ = [CHR 0x27]"

definition sparkles :: string where
  "sparkles = [CHR 0xE2, CHR 0x9C, CHR 0xA8]"

definition default_response :: string where
  "default_response =
     ''I'm sorry, I couldn't find information on that. Could you please rephrase or ask about specific MOSDAC data products, satellites, or services?''"

text \<open>
  The helper \<open>find_primary_entity\<close>: the preferred labels first, then the first item of
  the dict whose label is a node kind; \<open>None\<close> stands for the pair \<open>(None, None)\<close>.
\<close>

fun first_preferred :: "props \<Rightarrow> string list \<Rightarrow> (string \<times> string) option" where
  "first_preferred entities_dict [] = None"
| "first_preferred entities_dict (label # labels) =
     (case map_of entities_dict label of
        Some name \<Rightarrow> Some (name, label)
      | None \<Rightarrow> first_preferred entities_dict labels)"

definition find_primary_entity :: "props \<Rightarrow> string list \<Rightarrow> (string \<times> string) option" where
  "find_primary_entity entities_dict preferred_labels =
     (case first_preferred entities_dict preferred_labels of
        Some found \<Rightarrow> Some found
      | None \<Rightarrow>
          (case find (\<lambda>(label, name). label \<in> set KG_SCHEMA_nodes) entities_dict of
             Some (label, name) \<Rightarrow> Some (name, label)
           | None \<Rightarrow> None))"

text \<open>
  \<open>if primary_entity_name:\<close> and the like: the helper found a pair and its name is not
  the empty string.
\<close>

definition named_entity :: "(string \<times> string) option \<Rightarrow> (string \<times> string) option" where
  "named_entity found =
     (case found of
        None \<Rightarrow> None
      | Some (name, label) \<Rightarrow> if name = [] then None else Some (name, label))"

subsection \<open>The branch for get\_details\<close>

text \<open>
  One line per relationship.  \<open>.lower()\<close> and \<open>.replace\<close> on \<open>None\<close> raise
  \<open>AttributeError\<close>; inside an f-string \<open>None\<close> prints as text.
\<close>

definition render_relationship :: "relationship \<Rightarrow> py_error + string" where
  "render_relationship rel =
     (if rel_type rel = Some ''FROM_SATELLITE''
      then Inr (''  - It is derived from the '' @ py_str (target_name rel) @ '' satellite.'')
      else if rel_type rel = Some ''PROVIDES''
      then (case target_name rel of
              None \<Rightarrow> Inl AttributeError
            | Some t \<Rightarrow> Inr (''  - It provides data on '' @ str_lower t @ ''.''))
      else if rel_type rel = Some ''AVAILABLE_IN_FORMAT''
      then Inr (''  - It is available in '' @ py_str (target_name rel) @ '' format.'')
      else if rel_type rel = Some ''APPLICABLE_FOR''
      then (case target_name rel of
              None \<Rightarrow> Inl AttributeError
            | Some t \<Rightarrow> Inr (''  - It is applicable for '' @ str_lower t @ ''.''))
      else if rel_type rel = Some ''USES_SENSOR''
      then Inr (''  - It uses the '' @ py_str (target_name rel) @ '' sensor.'')
      else if rel_type rel = Some ''PRODUCED_BY''
      then Inr (''  - It is produced by '' @ py_str (target_name rel) @ ''.'')
      else (case rel_type rel of
              None \<Rightarrow> Inl AttributeError
            | Some ty \<Rightarrow>
                Inr (''  - Related to '' @ py_str (target_name rel) @ '' (''
                     @ py_str (target_label rel) @ '') via ''
                     @ str_lower (str_replace CHR ''_'' CHR '' '' ty) @ ''.'')))"

fun render_relationships :: "relationship list \<Rightarrow> py_error + string list" where
  "render_relationships [] = Inr []"
| "render_relationships (rel # rels) =
     (case render_relationship rel of
        Inl e \<Rightarrow> Inl e
      | Inr line \<Rightarrow>
          (case render_relationships rels of
             Inl e \<Rightarrow> Inl e
           | Inr lines \<Rightarrow> Inr (line # lines)))"

definition related_information :: "relationship list \<Rightarrow> py_error + string list" where
  "related_information rels =
     (if rels = [] then Inr []
      else (case render_relationships rels of
              Inl e \<Rightarrow> Inl e
            | Inr lines \<Rightarrow> Inr ((NL @ ''Related Information:'') # lines)))"

definition render_node_props :: "props \<Rightarrow> string list" where
  "render_node_props nd =
     map (\<lambda>(prop, v). ''- '' @ str_title (str_replace CHR ''_'' CHR '' '' prop) @ '': '' @ v)
       (filter (\<lambda>(prop, v). prop \<notin> set [''name'', ''description'']) nd)"

definition followup_offer :: string where
  "followup_offer =
     NL @ NL @ sparkles
     @ '' Would you like me to summarize this, or generate use case ideas for this data?''"

definition please_specify_details :: string where
  "please_specify_details =
     ''Please specify which MOSDAC data product, satellite, or service you'd like to know about.''"

text \<open>
  The part of the branch after a successful lookup.  The memory is written before the
  relationships are rendered, so it is already written when rendering raises.
\<close>

definition describe_entity :: "string \<Rightarrow> details \<Rightarrow> call list \<Rightarrow> response" where
  "describe_entity primary_entity_name found cs =
     (let nd = node found;
          shown_name = (case map_of nd ''name'' of Some n \<Rightarrow> n | None \<Rightarrow> primary_entity_name);
          description_content = map_of nd ''description'';
          bot1 = (if truthy description_content
                  then \<lparr>last_detailed_response_content = description_content,
                        last_detailed_entity_name = Some shown_name\<rparr>
                  else cleared);
          response_parts =
            [''Here's what I know about '' @ shown_name @ '':'']
            @ (case description_content of
                 Some d \<Rightarrow> if d \<noteq> [] then [''- Description: '' @ d] else []
               | None \<Rightarrow> [])
            @ render_node_props nd
      in case related_information (relationships found) of
           Inl e \<Rightarrow> \<lparr>outcome = Inl e, memory = bot1, calls = cs\<rparr>
         | Inr rel_lines \<Rightarrow>
             \<lparr>outcome = Inr (join NL (response_parts @ rel_lines)
                             @ (if truthy (last_detailed_response_content bot1)
                                then followup_offer else [])),
              memory = bot1, calls = cs\<rparr>)"

definition get_details_branch :: "services \<Rightarrow> bot \<Rightarrow> props \<Rightarrow> response" where
  "get_details_branch svc b ents =
     (case named_entity (find_primary_entity ents
             [''DataProduct'', ''Satellite'', ''Sensor'', ''Parameter'', ''ApplicationArea'',
              ''Service'', ''Institution'']) of
        None \<Rightarrow> \<lparr>outcome = Inr please_specify_details, memory = cleared, calls = []\<rparr>
      | Some (primary_entity_name, primary_entity_label) \<Rightarrow>
          (case svc_entity_details svc primary_entity_name (Some primary_entity_label) of
             None \<Rightarrow>
               \<lparr>outcome = Inr (''I couldn't find detailed information about '' @ SQ
                               @ primary_entity_name @ SQ
                               @ ''. It might not be in my knowledge base yet.''),
                memory = cleared,
                calls = [KG_entity_details primary_entity_name (Some primary_entity_label)]\<rparr>
           | Some found \<Rightarrow>
               describe_entity primary_entity_name found
                 [KG_entity_details primary_entity_name (Some primary_entity_label)]))"

subsection \<open>The other branches\<close>

definition list_products_query :: string where
  "list_products_query =
     ''MATCH (p:DataProduct) RETURN p.name AS name, p.description AS description LIMIT 5''"

definition list_data_products_branch :: "services \<Rightarrow> bot \<Rightarrow> response" where
  "list_data_products_branch svc b =
     (let products = svc_execute_query svc list_products_query
      in \<lparr>outcome =
            Inr (if products \<noteq> []
                 then ''MOSDAC provides various data products, including:'' @ NL
                      @ concat (map (\<lambda>p. ''- '' @ py_str (prod_name p) @ NL) products)
                      @ ''You can ask for more details about a specific product, e.g., ''
                      @ SQ @ ''Tell me about sea surface temperature data'' @ SQ @ ''.''
                 else ''I couldn't find a list of data products. The knowledge graph might be empty or the query needs refinement.''),
          memory = cleared,
          calls = [KG_execute_query list_products_query]\<rparr>)"

text \<open>
  \<open>', '.join(names)\<close> over the names of the related entities raises \<open>TypeError\<close> when
  a name is \<open>None\<close>.  A branch that raises there does not reach its two lines that
  clear the memory.
\<close>

definition join_names :: "related_entity list \<Rightarrow> py_error + string" where
  "join_names found =
     (if list_ex (\<lambda>f. related_name f = None) found then Inl TypeError
      else Inr (join '', '' (map (\<lambda>f. py_str (related_name f)) found)))"

definition get_data_format_branch :: "services \<Rightarrow> bot \<Rightarrow> props \<Rightarrow> response" where
  "get_data_format_branch svc b ents =
     (case named_entity (find_primary_entity ents [''DataProduct'']) of
        None \<Rightarrow>
          \<lparr>outcome = Inr ''Please specify which data product's format you are interested in.'',
           memory = cleared, calls = []\<rparr>
      | Some (product_name, product_label) \<Rightarrow>
          (let formats = svc_related_entities svc product_name product_label
                           ''AVAILABLE_IN_FORMAT'' ''DataFormat'';
               cs = [KG_related_entities product_name product_label
                           ''AVAILABLE_IN_FORMAT'' ''DataFormat'']
           in if formats \<noteq> []
              then (case join_names formats of
                      Inl e \<Rightarrow> \<lparr>outcome = Inl e, memory = b, calls = cs\<rparr>
                    | Inr format_names \<Rightarrow>
                        \<lparr>outcome = Inr (''The data for '' @ product_name
                             @ '' is typically available in the following formats: ''
                             @ format_names @ ''.''),
                         memory = cleared, calls = cs\<rparr>)
              else \<lparr>outcome = Inr (''I don't have information on the specific data format for ''
                                   @ product_name @ ''.''),
                    memory = cleared, calls = cs\<rparr>))"

text \<open>\<open>details['node']['name']\<close> raises \<open>KeyError\<close> when the node has no name.\<close>

definition get_download_info_branch :: "services \<Rightarrow> bot \<Rightarrow> props \<Rightarrow> response" where
  "get_download_info_branch svc b ents =
     (case named_entity (find_primary_entity ents [''DataProduct'', ''Parameter'']) of
        None \<Rightarrow>
          \<lparr>outcome = Inr ''Please specify which data product you'd like download information for.'',
           memory = cleared, calls = []\<rparr>
      | Some (product_name, product_label) \<Rightarrow>
          (let found = svc_entity_details svc product_name (Some product_label);
               cs = [KG_entity_details product_name (Some product_label)];
               no_link = \<lparr>outcome = Inr (''I don't have direct download links for '' @ product_name
                            @ ''. Please visit the MOSDAC website (mosdac.gov.in) and navigate to the data products section to find download options.''),
                          memory = cleared, calls = cs\<rparr>
           in case found of
                None \<Rightarrow> no_link
              | Some d \<Rightarrow>
                  (case map_of (node d) ''link'' of
                     None \<Rightarrow> no_link
                   | Some link \<Rightarrow>
                       (case map_of (node d) ''name'' of
                          None \<Rightarrow> \<lparr>outcome = Inl KeyError, memory = b, calls = cs\<rparr>
                        | Some nm \<Rightarrow>
                            \<lparr>outcome = Inr (''You can usually download data for '' @ nm
                                 @ '' from this link: '' @ link
                                 @ ''. Please visit the MOSDAC website for specific download procedures.''),
                             memory = cleared, calls = cs\<rparr>))))"

definition get_applications_branch :: "services \<Rightarrow> bot \<Rightarrow> props \<Rightarrow> response" where
  "get_applications_branch svc b ents =
     (case named_entity (find_primary_entity ents [''DataProduct'', ''Parameter'', ''Satellite'']) of
        None \<Rightarrow>
          \<lparr>outcome = Inr ''Please tell me which data product or satellite you'd like to know applications for.'',
           memory = cleared, calls = []\<rparr>
      | Some (product_name, product_label) \<Rightarrow>
          (let applications = svc_related_entities svc product_name product_label
                                ''APPLICABLE_FOR'' ''ApplicationArea'';
               cs = [KG_related_entities product_name product_label
                                ''APPLICABLE_FOR'' ''ApplicationArea'']
           in if applications \<noteq> []
              then (case join_names applications of
                      Inl e \<Rightarrow> \<lparr>outcome = Inl e, memory = b, calls = cs\<rparr>
                    | Inr app_names \<Rightarrow>
                        \<lparr>outcome = Inr (''The data/satellite '' @ SQ @ product_name @ SQ
                             @ '' is applicable for areas such as: '' @ app_names @ ''.''),
                         memory = cleared, calls = cs\<rparr>)
              else \<lparr>outcome = Inr (''I don't have specific application information for ''
                                   @ product_name @ '' in my knowledge base.''),
                    memory = cleared, calls = cs\<rparr>))"

definition get_services_branch :: "services \<Rightarrow> bot \<Rightarrow> props \<Rightarrow> response" where
  "get_services_branch svc b ents =
     (let institution_name = (case map_of ents ''Institution'' of
                                Some n \<Rightarrow> n | None \<Rightarrow> ''MOSDAC'');
          found = svc_related_entities svc institution_name ''Institution''
                    ''OFFERS_SERVICE'' ''Service'';
          cs = [KG_related_entities institution_name ''Institution''
                    ''OFFERS_SERVICE'' ''Service'']
      in if found \<noteq> []
         then (case join_names found of
                 Inl e \<Rightarrow> \<lparr>outcome = Inl e, memory = b, calls = cs\<rparr>
               | Inr service_names \<Rightarrow>
                   \<lparr>outcome = Inr (institution_name @ '' offers services like: '' @ service_names
                        @ ''. You can often find visualization tools or data download portals.''),
                    memory = cleared, calls = cs\<rparr>)
         else \<lparr>outcome = Inr (''I couldn't find specific service information for ''
                              @ institution_name @ ''.''),
               memory = cleared, calls = cs\<rparr>)"

text \<open>
  The two branches that call the client.  When the client raises, the exception leaves
  \<open>generate_response\<close> before the two lines that clear the memory.
\<close>

definition summarize_prompt :: "bot \<Rightarrow> string" where
  "summarize_prompt b =
     ''Summarize the following information about '' @ py_str (last_detailed_entity_name b)
     @ '' concisely in a paragraph:'' @ NL @ NL @ py_str (last_detailed_response_content b)"

definition summary_header :: "bot \<Rightarrow> string" where
  "summary_header b =
     sparkles @ '' Here's a summary of the previous information about ''
     @ py_str (last_detailed_entity_name b) @ '':'' @ NL"

definition nothing_to_summarize :: string where
  "nothing_to_summarize =
     ''I don't have a recent detailed piece of information to summarize. Please ask me about a specific data product or satellite first.''"

definition summarize_info_branch :: "services \<Rightarrow> bot \<Rightarrow> response" where
  "summarize_info_branch svc b =
     (if truthy (last_detailed_response_content b)
      then (case svc_llm svc (summarize_prompt b) of
              Inl e \<Rightarrow> \<lparr>outcome = Inl e, memory = b, calls = [LLM (summarize_prompt b)]\<rparr>
            | Inr llm_summary \<Rightarrow>
                \<lparr>outcome = Inr (summary_header b @ llm_summary),
                 memory = cleared, calls = [LLM (summarize_prompt b)]\<rparr>)
      else \<lparr>outcome = Inr nothing_to_summarize, memory = cleared, calls = []\<rparr>)"

definition use_case_context :: "string \<Rightarrow> details option \<Rightarrow> string" where
  "use_case_context target_entity_name found =
     (case found of
        None \<Rightarrow> ''data related to '' @ target_entity_name
      | Some d \<Rightarrow>
          (case map_of (node d) ''description'' of
             None \<Rightarrow> ''data related to '' @ target_entity_name
           | Some description \<Rightarrow>
               if description \<noteq> [] then description
               else ''data related to '' @ target_entity_name))"

definition use_case_prompt :: "string \<Rightarrow> string \<Rightarrow> string \<Rightarrow> string" where
  "use_case_prompt target_entity_name target_entity_label context =
     ''Generate 3-5 creative and practical use case ideas for '' @ SQ @ target_entity_name @ SQ
     @ '' (which is '' @ str_lower target_entity_label @ ''), considering its nature as ''
     @ context
     @ ''. Focus on meteorological, oceanographic, or environmental applications. Provide them as a bulleted list.''"

definition use_case_header :: "string \<Rightarrow> string" where
  "use_case_header target_entity_name =
     sparkles @ '' Here are some use case ideas for '' @ target_entity_name @ '':'' @ NL"

definition please_specify_use_cases :: string where
  "please_specify_use_cases =
     ''Please specify which data product, satellite, or parameter you'd like use case ideas for.''"

definition generate_use_cases_branch :: "services \<Rightarrow> bot \<Rightarrow> props \<Rightarrow> response" where
  "generate_use_cases_branch svc b ents =
     (case named_entity (find_primary_entity ents
             [''DataProduct'', ''Satellite'', ''Parameter'', ''ApplicationArea'']) of
        None \<Rightarrow> \<lparr>outcome = Inr please_specify_use_cases, memory = cleared, calls = []\<rparr>
      | Some (target_entity_name, target_entity_label) \<Rightarrow>
          (let found = svc_entity_details svc target_entity_name (Some target_entity_label);
               prompt = use_case_prompt target_entity_name target_entity_label
                          (use_case_context target_entity_name found);
               cs = [KG_entity_details target_entity_name (Some target_entity_label), LLM prompt]
           in case svc_llm svc prompt of
                Inl e \<Rightarrow> \<lparr>outcome = Inl e, memory = b, calls = cs\<rparr>
              | Inr llm_use_cases \<Rightarrow>
                  \<lparr>outcome = Inr (use_case_header target_entity_name @ llm_use_cases),
                   memory = cleared, calls = cs\<rparr>))"

subsection \<open>generate\_response\<close>

text \<open>
  The dispatch on the intent.  An intent without a branch falls through the chain: the
  text is the one \<open>response_text\<close> was initialised with, the memory is not touched and
  nothing is called.
\<close>

definition dispatch :: "services \<Rightarrow> bot \<Rightarrow> string \<Rightarrow> props \<Rightarrow> response" where
  "dispatch svc b intent ents =
     (if intent = ''get_details'' then get_details_branch svc b ents
      else if intent = ''list_data_products'' then list_data_products_branch svc b
      else if intent = ''get_data_format'' then get_data_format_branch svc b ents
      else if intent = ''get_download_info'' then get_download_info_branch svc b ents
      else if intent = ''get_applications'' then get_applications_branch svc b ents
      else if intent = ''get_services'' then get_services_branch svc b ents
      else if intent = ''summarize_info'' then summarize_info_branch svc b
      else if intent = ''generate_use_cases'' then generate_use_cases_branch svc b ents
      else \<lparr>outcome = Inr default_response, memory = b, calls = []\<rparr>)"

definition generate_response :: "services \<Rightarrow> bot \<Rightarrow> string \<Rightarrow> response" where
  "generate_response svc b user_query =
     (let nlu_result = process_query (svc_nlp svc) user_query
      in dispatch svc b (main_intent nlu_result) (entities nlu_result))"

text \<open>
  The bot as \<open>__init__\<close> builds it: the manager works on the store, and the client is
  \<open>_call_gemini_llm\<close>.  The recogniser, the store with the state of the driver, the two
  manager operations that are not modelled further and the web service are given.
\<close>

definition isro_services ::
  "(string \<Rightarrow> (string \<times> string) list) \<Rightarrow> store \<Rightarrow> kg_manager
   \<Rightarrow> (string \<Rightarrow> string \<Rightarrow> string \<Rightarrow> string \<Rightarrow> related_entity list)
   \<Rightarrow> (string \<Rightarrow> product list) \<Rightarrow> (string list \<Rightarrow> gemini_reply) \<Rightarrow> services" where
  "isro_services nlp st kg related listing post =
     \<lparr>svc_nlp = nlp,
      svc_entity_details = (\<lambda>entity_name entity_label.
         fst (get_entity_details st kg entity_name entity_label)),
      svc_related_entities = related,
      svc_execute_query = listing,
      svc_llm = call_gemini_llm post\<rparr>"

subsection \<open>What a successful lookup stores\<close>

text \<open>
  The memory that the branch for \<open>get_details\<close> writes when the lookup succeeds with a
  non-empty description: the description, and the name of the node (the name asked for
  when the node has none).  \<open>None\<close> when no entity is named in the request, the lookup
  finds nothing, or the node has no description or an empty one.
\<close>

definition described_entity :: "services \<Rightarrow> props \<Rightarrow> bot option" where
  "described_entity svc ents =
     (case named_entity (find_primary_entity ents
             [''DataProduct'', ''Satellite'', ''Sensor'', ''Parameter'', ''ApplicationArea'',
              ''Service'', ''Institution'']) of
        None \<Rightarrow> None
      | Some (name, label) \<Rightarrow>
          (case svc_entity_details svc name (Some label) of
             None \<Rightarrow> None
           | Some d \<Rightarrow>
               (case map_of (node d) ''description'' of
                  None \<Rightarrow> None
                | Some description \<Rightarrow>
                    if description = [] then None
                    else Some \<lparr>last_detailed_response_content = Some description,
                               last_detailed_entity_name =
                                 Some (case map_of (node d) ''name'' of
                                         Some n \<Rightarrow> n | None \<Rightarrow> name)\<rparr>)))"

subsection \<open>Stores, services and memories for the examples\<close>

definition example_store :: store where
  "example_store =
     \<lparr>reachable = True,
      graph_nodes =
        [\<lparr>node_labels = [''Satellite''],
          node_props = [(''name'', ''INSAT-3D''), (''launch_date'', ''2013-07-26'')]\<rparr>,
         \<lparr>node_labels = [''DataProduct''],
          node_props = [(''name'', ''Sea Surface Temperature''),
                        (''description'', ''Global daily sea surface temperature anomaly data.''),
                        (''update_frequency'', ''Daily'')]\<rparr>,
         \<lparr>node_labels = [''Parameter''], node_props = [(''name'', ''Temperature'')]\<rparr>],
      graph_rels =
        [\<lparr>rel_from = 1, rel_kind = ''FROM_SATELLITE'', rel_to = 0, rel_props = []\<rparr>,
         \<lparr>rel_from = 1, rel_kind = ''PROVIDES'', rel_to = 2, rel_props = []\<rparr>]\<rparr>"

definition empty_store :: store where
  "empty_store = \<lparr>reachable = True, graph_nodes = [], graph_rels = []\<rparr>"

text \<open>
  The bot as it is built, on a store, with a web service that would answer; and the
  same bot with another client in the place of \<open>_call_gemini_llm\<close>.
\<close>

definition example_bot :: "store \<Rightarrow> services" where
  "example_bot st =
     isro_services ner_example st \<lparr>driver = True\<rparr> (\<lambda>name label rel target. []) (\<lambda>query. [])
       (\<lambda>chat_history. GeneratedText ''- Monitor monsoon onset.'')"

definition with_client :: "(string \<Rightarrow> py_error + string) \<Rightarrow> services \<Rightarrow> services" where
  "with_client llm svc = svc\<lparr>svc_llm := llm\<rparr>"

text \<open>A client that answers every prompt with the same text.\<close>

definition answering_client :: "string \<Rightarrow> string \<Rightarrow> py_error + string" where
  "answering_client answer prompt = Inr answer"

text \<open>
  The bot as it is built, on a store, when the web service cannot be reached: every
  request to it would time out.
\<close>

definition offline_bot :: "store \<Rightarrow> services" where
  "offline_bot st =
     isro_services ner_example st \<lparr>driver = True\<rparr> (\<lambda>name label rel target. []) (\<lambda>query. [])
       (\<lambda>chat_history. NetworkFailure)"

text \<open>A manager whose lookup leaves the label out of the query.\<close>

definition unlabelled_lookup :: "store \<Rightarrow> services \<Rightarrow> services" where
  "unlabelled_lookup st svc =
     svc\<lparr>svc_entity_details := (\<lambda>entity_name entity_label.
            fst (get_entity_details st \<lparr>driver = True\<rparr> entity_name None))\<rparr>"

definition example_memory :: bot where
  "example_memory =
     \<lparr>last_detailed_response_content = Some ''Global daily sea surface temperature anomaly data.'',
      last_detailed_entity_name = Some ''Sea Surface Temperature''\<rparr>"

section \<open>Properties\<close>

subsection \<open>The keyword scan and the deduplication loop\<close>

lemma keyword_step_keywords:
  "startswith l ''Query_'' \<or> l \<in> set known_entity_labels \<Longrightarrow>
   scan_keywords (keyword_step t s (k, l)) = scan_keywords s"
  by (auto simp add: keyword_step_def)

lemma keyword_step_intents:
  "scan_intents (keyword_step t s (k, l)) =
     scan_intents s @ (if str_in k t \<and> startswith l ''Query_'' then [l] else [])"
  by (simp add: keyword_step_def)

lemma keyword_step_entities:
  "scan_entities (keyword_step t s (k, l)) =
     scan_entities s @
       (if str_in k t \<and> \<not> startswith l ''Query_'' \<and> l \<in> set known_entity_labels
        then [\<lparr>ent_text = k, ent_label = l, ent_type = ''Keyword''\<rparr>] else [])"
  by (simp add: keyword_step_def)

lemma foldl_keyword_step_keywords:
  "list_all (\<lambda>(k, l). startswith l ''Query_'' \<or> l \<in> set known_entity_labels) tbl \<Longrightarrow>
   scan_keywords (foldl (keyword_step t) s tbl) = scan_keywords s"
proof (induction tbl arbitrary: s)
  case Nil
  show ?case by simp
next
  case (Cons kv tbl)
  obtain k l where kv: "kv = (k, l)" by (cases kv)
  from Cons.prems kv have "scan_keywords (keyword_step t s (k, l)) = scan_keywords s"
    by (simp add: keyword_step_keywords)
  with Cons kv show ?case by simp
qed

lemma foldl_keyword_step_intents:
  "scan_intents (foldl (keyword_step t) s tbl) =
     scan_intents s @ map snd (filter (\<lambda>(k, l). str_in k t \<and> startswith l ''Query_'') tbl)"
proof (induction tbl arbitrary: s)
  case Nil
  show ?case by simp
next
  case (Cons kv tbl)
  obtain k l where kv: "kv = (k, l)" by (cases kv)
  show ?case by (simp add: Cons.IH kv keyword_step_intents)
qed

lemma foldl_keyword_step_entities:
  "scan_entities (foldl (keyword_step t) s tbl) =
     scan_entities s @
     map (\<lambda>(k, l). \<lparr>ent_text = k, ent_label = l, ent_type = ''Keyword''\<rparr>)
       (filter (\<lambda>(k, l). str_in k t \<and> \<not> startswith l ''Query_'' \<and> l \<in> set known_entity_labels) tbl)"
proof (induction tbl arbitrary: s)
  case Nil
  show ?case by simp
next
  case (Cons kv tbl)
  obtain k l where kv: "kv = (k, l)" by (cases kv)
  show ?case by (simp add: Cons.IH kv keyword_step_entities)
qed

lemma scan_entities_keyword_scan:
  "scan_entities (keyword_scan nlp text) =
     ner_entities (nlp (str_lower text)) @
     map (\<lambda>(k, l). \<lparr>ent_text = k, ent_label = l, ent_type = ''Keyword''\<rparr>)
       (filter (\<lambda>(k, l). str_in k (str_lower text) \<and> \<not> startswith l ''Query_''
                          \<and> l \<in> set known_entity_labels) mosdac_keywords)"
  by (simp add: keyword_scan_def foldl_keyword_step_entities)

lemma scan_intents_keyword_scan:
  "scan_intents (keyword_scan nlp text) =
     map snd (filter (\<lambda>(k, l). str_in k (str_lower text) \<and> startswith l ''Query_'') mosdac_keywords)"
  by (simp add: keyword_scan_def foldl_keyword_step_intents)

lemma scan_entities_cases:
  assumes "e \<in> set (scan_entities (keyword_scan nlp text))"
  shows "(ent_type e = ''NER'' \<and> ent_label e \<in> set ner_labels)
       \<or> (ent_type e = ''Keyword'' \<and> ent_label e \<in> set known_entity_labels)"
  using assms by (auto simp add: scan_entities_keyword_scan ner_entities_def)

lemma ner_labels_unknown: "l \<in> set ner_labels \<Longrightarrow> l \<notin> set known_entity_labels"
  by (auto simp add: ner_labels_def known_entity_labels_def KG_SCHEMA_nodes_def)

lemma refine_step_distinct:
  "distinct (map fst m) \<Longrightarrow> distinct (map fst (refine_step m e))"
  by (simp add: refine_step_def AList.distinct_update)

lemma refine_distinct:
  "distinct (map fst m) \<Longrightarrow> distinct (map fst (foldl refine_step m ents))"
  by (induction ents arbitrary: m) (simp_all add: refine_step_distinct)

lemma refine_step_known_label:
  assumes "L \<in> set known_entity_labels"
      and "ent_label e \<in> set known_entity_labels \<or> ent_type e = ''NER''"
  shows "map_of (refine_step m e) L = (if ent_label e = L then Some (ent_text e) else map_of m L)"
  using assms by (auto simp add: refine_step_def AList.update_conv')

lemma refine_last_wins:
  assumes "L \<in> set known_entity_labels"
      and "\<forall>e \<in> set ents. ent_label e \<in> set known_entity_labels \<or> ent_type e = ''NER''"
  shows "map_of (foldl refine_step m ents) L =
           (case filter (\<lambda>e. ent_label e = L) ents of
              [] \<Rightarrow> map_of m L
            | x # xs \<Rightarrow> Some (ent_text (last (x # xs))))"
  using assms(2)
proof (induction ents rule: rev_induct)
  case Nil
  show ?case by simp
next
  case (snoc e ents)
  then have IH: "map_of (foldl refine_step m ents) L =
           (case filter (\<lambda>e. ent_label e = L) ents of
              [] \<Rightarrow> map_of m L
            | x # xs \<Rightarrow> Some (ent_text (last (x # xs))))"
    by simp
  from snoc.prems have e: "ent_label e \<in> set known_entity_labels \<or> ent_type e = ''NER''"
    by simp
  show ?case
  proof (cases "ent_label e = L")
    case True
    have "filter (\<lambda>e. ent_label e = L) (ents @ [e]) \<noteq> []"
      using True by simp
    moreover have "last (filter (\<lambda>e. ent_label e = L) (ents @ [e])) = e"
      using True by simp
    ultimately have "(case filter (\<lambda>e. ent_label e = L) (ents @ [e]) of
              [] \<Rightarrow> map_of m L
            | x # xs \<Rightarrow> Some (ent_text (last (x # xs)))) = Some (ent_text e)"
      by (cases "filter (\<lambda>e. ent_label e = L) (ents @ [e])") auto
    then show ?thesis
      using True refine_step_known_label [OF assms(1) e] by simp
  next
    case False
    then show ?thesis
      using IH refine_step_known_label [OF assms(1) e] by simp
  qed
qed

subsection \<open>The extractor: keywords, intent, entities\<close>

lemma mosdac_keywords_classified:
  "list_all (\<lambda>(k, l). startswith l ''Query_'' \<or> l \<in> set known_entity_labels) mosdac_keywords"
  by (simp add: mosdac_keywords_def known_entity_labels_def KG_SCHEMA_nodes_def)

text \<open>
  Claim C10.  For every recogniser and every input text the \<open>keywords\<close> field of the
  extraction result is the empty list: each label of the keyword table either starts with
  \<open>Query_\<close> or is a known entity kind (\<open>mosdac_keywords_classified\<close>), so the branch
  that records an unclassified keyword is never taken.
\<close>

theorem keywords_field_empty: "nlu_keywords (process_query nlp text) = []"
  using foldl_keyword_step_keywords [OF mosdac_keywords_classified]
  by (simp add: process_query_def keyword_scan_def Let_def)

lemma scenario_D_intents:
  "scan_intents (keyword_scan nlp ''What data products does MOSDAC provide?'') = [''Query_DataProducts'']"
  unfolding scan_intents_keyword_scan by code_simp

lemma resolve_intent_first_signal:
  "resolve_intent intents =
     (case first_signal intents of Some (names, intent) \<Rightarrow> intent | None \<Rightarrow> ''general_query'')"
  by (simp add: resolve_intent_def first_signal_def intent_priority_def)

lemma first_signal_not_general:
  "first_signal intents = Some (names, intent) \<Longrightarrow> intent \<noteq> ''general_query''"
  by (auto simp add: first_signal_def intent_priority_def split: if_splits)

lemma first_signal_None_iff:
  "set intents \<subseteq> set (map snd (filter (\<lambda>(k, l). startswith l ''Query_'') mosdac_keywords)) \<Longrightarrow>
   (first_signal intents = None) = (intents = [])"
  apply (cases intents)
   apply (simp add: first_signal_def intent_priority_def)
  apply (simp add: first_signal_def intent_priority_def mosdac_keywords_def)
  apply auto
  done

lemma scan_entities_type_not_kind:
  assumes "e \<in> set (scan_entities (keyword_scan nlp text))"
  shows "ent_type e \<notin> set KG_SCHEMA_nodes"
  using scan_entities_cases [OF assms] by (auto simp add: KG_SCHEMA_nodes_def)

lemma upgrade_intent_label_only:
  assumes "\<forall>e \<in> set ents. ent_type e \<notin> set KG_SCHEMA_nodes"
  shows "upgrade_intent i ents =
           (if i = ''general_query'' \<and> list_ex (\<lambda>e. ent_label e \<in> set known_entity_labels) ents
            then ''get_details'' else i)"
proof -
  have "list_ex (\<lambda>e. ent_label e \<in> set KG_SCHEMA_nodes \<or> ent_type e \<in> set KG_SCHEMA_nodes) ents
      = list_ex (\<lambda>e. ent_label e \<in> set known_entity_labels) ents"
    using assms by (auto simp add: list_ex_iff known_entity_labels_def)
  then show ?thesis by (simp add: upgrade_intent_def)
qed

lemma main_intent_refines_priority:
  "main_intent (process_query nlp text) =
     main_intent_by_priority (scan_intents (keyword_scan nlp text))
       (raw_entities (process_query nlp text))"
proof -
  let ?s = "keyword_scan nlp text"
  have types: "\<forall>e \<in> set (scan_entities ?s). ent_type e \<notin> set KG_SCHEMA_nodes"
    using scan_entities_type_not_kind by blast
  show ?thesis
  proof (cases "first_signal (scan_intents ?s)")
    case None
    then show ?thesis
      by (simp add: process_query_def Let_def upgrade_intent_label_only [OF types]
          resolve_intent_first_signal main_intent_by_priority_def)
  next
    case (Some p)
    obtain names intent where p: "p = (names, intent)" by (cases p)
    from Some p have "intent \<noteq> ''general_query''"
      using first_signal_not_general by blast
    with Some p show ?thesis
      by (simp add: process_query_def Let_def upgrade_intent_label_only [OF types]
          resolve_intent_first_signal main_intent_by_priority_def)
  qed
qed

lemma scan_intents_in_table:
  "set (scan_intents (keyword_scan nlp text))
     \<subseteq> set (map snd (filter (\<lambda>(k, l). startswith l ''Query_'') mosdac_keywords))"
  unfolding scan_intents_keyword_scan by auto

lemma scenario_D_main_intent:
  "main_intent (process_query nlp ''What data products does MOSDAC provide?'') = ''list_data_products''"
  by (simp add: process_query_def Let_def scenario_D_intents resolve_intent_def upgrade_intent_def)

text \<open>
  Claim C6.  For every input text, \<open>main_intent\<close> is the intent of the first signal
  present in the priority order download, format, time resolution, spatial resolution,
  applications, services, list products, summarize, use cases, details; when no signal
  fired at all it is \<open>general_query\<close>, upgraded to \<open>get_details\<close> exactly when some
  candidate entity has a known entity kind as its label.  The case "no listed signal is
  present" is the case "no signal fired", since every \<open>Query_\<close> label of the table is in
  the list.  In particular "What data products does MOSDAC provide?" resolves to
  \<open>list_data_products\<close> whatever the recogniser tags.
\<close>

theorem main_intent_priority_order:
  "main_intent (process_query nlp text) =
     main_intent_by_priority (scan_intents (keyword_scan nlp text))
       (raw_entities (process_query nlp text))
   \<and> (first_signal (scan_intents (keyword_scan nlp text)) = None)
       = (scan_intents (keyword_scan nlp text) = [])
   \<and> main_intent (process_query nlp ''What data products does MOSDAC provide?'')
       = ''list_data_products''"
  using main_intent_refines_priority [of nlp "text"]
    first_signal_None_iff [OF scan_intents_in_table, of nlp "text"]
    scenario_D_main_intent [of nlp]
  by simp

lemma no_hits_scan:
  assumes ner: "\<forall>(t, l) \<in> set (nlp (str_lower text)). l \<notin> set ner_labels"
      and kw: "\<forall>(k, l) \<in> set mosdac_keywords. \<not> str_in k (str_lower text)"
  shows "scan_entities (keyword_scan nlp text) = [] \<and> scan_intents (keyword_scan nlp text) = []"
proof -
  have "filter (\<lambda>(t, l). l \<in> set ner_labels) (nlp (str_lower text)) = []"
    using ner by (auto simp add: filter_empty_conv)
  moreover have "filter (\<lambda>(k, l). str_in k (str_lower text) \<and> \<not> startswith l ''Query_''
                          \<and> l \<in> set known_entity_labels) mosdac_keywords = []"
    using kw by (auto simp add: filter_empty_conv)
  moreover have "filter (\<lambda>(k, l). str_in k (str_lower text) \<and> startswith l ''Query_'') mosdac_keywords = []"
    using kw by (auto simp add: filter_empty_conv)
  ultimately show ?thesis
    by (simp add: scan_entities_keyword_scan scan_intents_keyword_scan ner_entities_def)
qed

lemma no_hits_general_query:
  assumes ner: "\<forall>(t, l) \<in> set (nlp (str_lower text)). l \<notin> set ner_labels"
      and kw: "\<forall>(k, l) \<in> set mosdac_keywords. \<not> str_in k (str_lower text)"
  shows "main_intent (process_query nlp text) = ''general_query''
       \<and> entities (process_query nlp text) = []"
  using no_hits_scan [of nlp "text"] ner kw
  by (simp add: process_query_def Let_def resolve_intent_def upgrade_intent_def)

lemma no_keyword_in_empty: "\<forall>(k, l) \<in> set mosdac_keywords. \<not> str_in k (str_lower [])"
  by (simp add: str_lower_def mosdac_keywords_def)

text \<open>
  Claim C8.  If the recogniser yields no span with a retained label and no phrase of the
  keyword table occurs in the lower-cased text, then \<open>main_intent\<close> is
  \<open>general_query\<close> and the \<open>entities\<close> mapping is empty.  For the empty text no phrase
  of the table occurs, so the same holds as soon as the recogniser retains no span there.
\<close>

theorem no_match_general_query:
  "((\<forall>(t, l) \<in> set (nlp (str_lower text)). l \<notin> set ner_labels)
     \<and> (\<forall>(k, l) \<in> set mosdac_keywords. \<not> str_in k (str_lower text))
    \<longrightarrow> main_intent (process_query nlp text) = ''general_query''
        \<and> entities (process_query nlp text) = [])
   \<and> ((\<forall>(t, l) \<in> set (nlp []). l \<notin> set ner_labels)
    \<longrightarrow> main_intent (process_query nlp []) = ''general_query''
        \<and> entities (process_query nlp []) = [])"
proof (intro conjI impI)
  assume h: "(\<forall>(t, l) \<in> set (nlp (str_lower text)). l \<notin> set ner_labels)
     \<and> (\<forall>(k, l) \<in> set mosdac_keywords. \<not> str_in k (str_lower text))"
  then show "main_intent (process_query nlp text) = ''general_query''"
    and "entities (process_query nlp text) = []"
    using no_hits_general_query [of nlp "text"] by blast+
next
  assume "\<forall>(t, l) \<in> set (nlp []). l \<notin> set ner_labels"
  then have ner: "\<forall>(t, l) \<in> set (nlp (str_lower [])). l \<notin> set ner_labels"
    by (simp add: str_lower_def)
  show "main_intent (process_query nlp []) = ''general_query''"
    and "entities (process_query nlp []) = []"
    using no_hits_general_query [of nlp "[]"] ner no_keyword_in_empty by blast+
qed

text \<open>
  Claim C8 at two inputs: a greeting in which the recogniser only finds a span with a
  dropped label, and the empty text.
\<close>

theorem no_match_general_query_witness:
  "main_intent (process_query (\<lambda>t. [(''monday'', ''PERSON'')]) ''Hello there'') = ''general_query''
   \<and> entities (process_query (\<lambda>t. [(''monday'', ''PERSON'')]) ''Hello there'') = []
   \<and> main_intent (process_query (\<lambda>t. []) []) = ''general_query''
   \<and> entities (process_query (\<lambda>t. []) []) = []"
proof -
  have a: "\<forall>(t, l) \<in> set ((\<lambda>t. [(''monday'', ''PERSON'')]) (str_lower ''Hello there'')). l \<notin> set ner_labels"
    by (simp add: ner_labels_def)
  have b: "\<forall>(k, l) \<in> set mosdac_keywords. \<not> str_in k (str_lower ''Hello there'')"
    by code_simp
  have c: "\<forall>(t, l) \<in> set ((\<lambda>t. []) []). l \<notin> set ner_labels"
    by simp
  show ?thesis
    using no_match_general_query [of "\<lambda>t. [(''monday'', ''PERSON'')]" "''Hello there''"]
      no_match_general_query [of "\<lambda>t. []" "[]"] a b c
    by blast
qed

lemma refine_ner_step:
  assumes "ent_type e = ''NER''" and "ent_label e \<notin> set known_entity_labels"
  shows "foldl refine_step [] (pre @ [e]) =
           (let m = foldl refine_step [] pre in
            if ent_text e \<notin> snd ` set m
               \<and> \<not> (\<exists>(l, t) \<in> set m. l \<in> set known_entity_labels \<and> str_in t (ent_text e))
            then AList.update (ent_label e) (ent_text e) m else m)"
  using assms by (auto simp add: refine_step_def Let_def list_ex_iff)

text \<open>
  Claim C7, as amended.  The \<open>entities\<close> mapping has at most one name per label.  For a
  known entity kind the mapped name is the text of the last candidate scanned with that
  label (and the label is absent when there is none).  A recogniser candidate, reached
  with the mapping \<open>m\<close> built from the candidates before it, is added under its own label
  if and only if its text is not already a value of \<open>m\<close> and no value that \<open>m\<close> holds
  under a known entity kind is a substring of its text; otherwise \<open>m\<close> stays as it is.
\<close>

theorem entities_dedup:
  "distinct (map fst (entities (process_query nlp text)))
   \<and> (\<forall>L \<in> set known_entity_labels.
         map_of (entities (process_query nlp text)) L =
           (case filter (\<lambda>e. ent_label e = L) (raw_entities (process_query nlp text)) of
              [] \<Rightarrow> None
            | x # xs \<Rightarrow> Some (ent_text (last (x # xs)))))
   \<and> (\<forall>pre e post.
         raw_entities (process_query nlp text) = pre @ e # post \<and> ent_type e = ''NER'' \<longrightarrow>
         foldl refine_step [] (pre @ [e]) =
           (let m = foldl refine_step [] pre in
            if ent_text e \<notin> snd ` set m
               \<and> \<not> (\<exists>(l, t) \<in> set m. l \<in> set known_entity_labels \<and> str_in t (ent_text e))
            then AList.update (ent_label e) (ent_text e) m else m))"
proof (intro conjI ballI allI impI)
  show "distinct (map fst (entities (process_query nlp text)))"
    by (simp add: process_query_def Let_def refine_distinct)
next
  fix L assume L: "L \<in> set known_entity_labels"
  have "\<forall>e \<in> set (scan_entities (keyword_scan nlp text)).
          ent_label e \<in> set known_entity_labels \<or> ent_type e = ''NER''"
    using scan_entities_cases by blast
  from refine_last_wins [OF L this, of "[]"]
  have "map_of (foldl refine_step [] (scan_entities (keyword_scan nlp text))) L =
           (case filter (\<lambda>e. ent_label e = L) (scan_entities (keyword_scan nlp text)) of
              [] \<Rightarrow> None
            | x # xs \<Rightarrow> Some (ent_text (last (x # xs))))"
    by (simp split: list.splits)
  then show "map_of (entities (process_query nlp text)) L =
           (case filter (\<lambda>e. ent_label e = L) (raw_entities (process_query nlp text)) of
              [] \<Rightarrow> None
            | x # xs \<Rightarrow> Some (ent_text (last (x # xs))))"
    by (simp add: process_query_def Let_def)
next
  fix pre e post
  assume h: "raw_entities (process_query nlp text) = pre @ e # post \<and> ent_type e = ''NER''"
  then have "e \<in> set (scan_entities (keyword_scan nlp text))"
    by (simp add: process_query_def Let_def)
  from scan_entities_cases [OF this] h have "ent_label e \<in> set ner_labels"
    by auto
  then have "ent_label e \<notin> set known_entity_labels"
    by (rule ner_labels_unknown)
  with h show "foldl refine_step [] (pre @ [e]) =
           (let m = foldl refine_step [] pre in
            if ent_text e \<notin> snd ` set m
               \<and> \<not> (\<exists>(l, t) \<in> set m. l \<in> set known_entity_labels \<and> str_in t (ent_text e))
            then AList.update (ent_label e) (ent_text e) m else m)"
    using refine_ner_step by blast
qed

lemma example_raw:
  "raw_entities (process_query ner_example ''Wind and rainfall from ISRO and ISRO India'') =
     [\<lparr>ent_text = ''isro'', ent_label = ''ORG'', ent_type = ''NER''\<rparr>,
      \<lparr>ent_text = ''isro india'', ent_label = ''GPE'', ent_type = ''NER''\<rparr>,
      \<lparr>ent_text = ''wind'', ent_label = ''Parameter'', ent_type = ''Keyword''\<rparr>,
      \<lparr>ent_text = ''rainfall'', ent_label = ''Parameter'', ent_type = ''Keyword''\<rparr>]"
  by code_simp

text \<open>
  Claim C7 as stated fails: with the recogniser spans "isro" (ORG) and "isro india" (GPE)
  the second candidate is added under GPE although the value "isro", already mapped
  under ORG, is a substring of its text.  The substring test of the source only looks at
  values mapped under known entity kinds.
\<close>

theorem ner_overlap_counterexample:
  "raw_entities (process_query ner_example ''Wind and rainfall from ISRO and ISRO India'') =
     [\<lparr>ent_text = ''isro'', ent_label = ''ORG'', ent_type = ''NER''\<rparr>,
      \<lparr>ent_text = ''isro india'', ent_label = ''GPE'', ent_type = ''NER''\<rparr>,
      \<lparr>ent_text = ''wind'', ent_label = ''Parameter'', ent_type = ''Keyword''\<rparr>,
      \<lparr>ent_text = ''rainfall'', ent_label = ''Parameter'', ent_type = ''Keyword''\<rparr>]
   \<and> entities (process_query ner_example ''Wind and rainfall from ISRO and ISRO India'') =
       [(''ORG'', ''isro''), (''GPE'', ''isro india''), (''Parameter'', ''rainfall'')]
   \<and> str_in ''isro'' ''isro india''"
proof -
  have "entities (process_query ner_example ''Wind and rainfall from ISRO and ISRO India'') =
          foldl refine_step []
            (raw_entities (process_query ner_example ''Wind and rainfall from ISRO and ISRO India''))"
    by (simp add: process_query_def Let_def)
  also have "\<dots> = [(''ORG'', ''isro''), (''GPE'', ''isro india''), (''Parameter'', ''rainfall'')]"
    unfolding example_raw by code_simp
  finally show ?thesis using example_raw by simp
qed

text \<open>
  Claim C7, amended, at a concrete sentence: the keywords "wind" and "rainfall" share the
  label Parameter and the later table entry wins; the second recogniser candidate is
  added.
\<close>

theorem entities_dedup_witness:
  "distinct (map fst (entities
      (process_query ner_example ''Wind and rainfall from ISRO and ISRO India'')))
   \<and> map_of (entities (process_query ner_example ''Wind and rainfall from ISRO and ISRO India''))
        ''Parameter'' = Some ''rainfall''
   \<and> foldl refine_step []
        [\<lparr>ent_text = ''isro'', ent_label = ''ORG'', ent_type = ''NER''\<rparr>,
         \<lparr>ent_text = ''isro india'', ent_label = ''GPE'', ent_type = ''NER''\<rparr>]
       = [(''ORG'', ''isro''), (''GPE'', ''isro india'')]"
proof -
  let ?r = "process_query ner_example ''Wind and rainfall from ISRO and ISRO India''"
  let ?e1 = "\<lparr>ent_text = ''isro'', ent_label = ''ORG'', ent_type = ''NER''\<rparr>"
  let ?e2 = "\<lparr>ent_text = ''isro india'', ent_label = ''GPE'', ent_type = ''NER''\<rparr>"
  let ?post = "[\<lparr>ent_text = ''wind'', ent_label = ''Parameter'', ent_type = ''Keyword''\<rparr>,
      \<lparr>ent_text = ''rainfall'', ent_label = ''Parameter'', ent_type = ''Keyword''\<rparr>]"
  note inst = entities_dedup [of ner_example "''Wind and rainfall from ISRO and ISRO India''"]
  have kind: "''Parameter'' \<in> set known_entity_labels"
    by (simp add: known_entity_labels_def KG_SCHEMA_nodes_def)
  have parts: "raw_entities ?r = [?e1] @ ?e2 # ?post \<and> ent_type ?e2 = ''NER''"
    by (simp add: example_raw)
  have a: "distinct (map fst (entities ?r))"
    using inst by blast
  have "map_of (entities ?r) ''Parameter'' =
           (case filter (\<lambda>e. ent_label e = ''Parameter'') (raw_entities ?r) of
              [] \<Rightarrow> None
            | x # xs \<Rightarrow> Some (ent_text (last (x # xs))))"
    using inst kind by blast
  then have b: "map_of (entities ?r) ''Parameter'' = Some ''rainfall''"
    by (simp add: example_raw)
  have "foldl refine_step [] ([?e1] @ [?e2]) =
           (let m = foldl refine_step [] [?e1] in
            if ent_text ?e2 \<notin> snd ` set m
               \<and> \<not> (\<exists>(l, t) \<in> set m. l \<in> set known_entity_labels \<and> str_in t (ent_text ?e2))
            then AList.update (ent_label ?e2) (ent_text ?e2) m else m)"
    using inst parts by blast
  then have c: "foldl refine_step [] [?e1, ?e2] = [(''ORG'', ''isro''), (''GPE'', ''isro india'')]"
    by (simp add: refine_step_def known_entity_labels_def KG_SCHEMA_nodes_def)
  from a b c show ?thesis by blast
qed

text \<open>
  Claim C10 at a concrete sentence.
\<close>

theorem keywords_field_empty_witness:
  "nlu_keywords (process_query ner_example ''Wind and rainfall from ISRO and ISRO India'') = []"
  using keywords_field_empty [of ner_example "''Wind and rainfall from ISRO and ISRO India''"]
  by simp

lemma example_download_intents:
  "scan_intents (keyword_scan ner_example ''How to download wind speed in the format of NetCDF?'')
     = [''Query_Download'', ''Query_Format'']"
  by code_simp

text \<open>
  Claim C6 at a sentence with two signals: download precedes format.
\<close>

theorem main_intent_priority_order_witness:
  "main_intent (process_query ner_example ''How to download wind speed in the format of NetCDF?'')
     = ''get_download_info''
   \<and> first_signal [''Query_Download'', ''Query_Format'']
        = Some ([''Query_Download''], ''get_download_info'')"
proof -
  have "main_intent_by_priority [''Query_Download'', ''Query_Format''] ents = ''get_download_info''"
    for ents
    by (simp add: main_intent_by_priority_def first_signal_def intent_priority_def)
  moreover have "first_signal [''Query_Download'', ''Query_Format'']
        = Some ([''Query_Download''], ''get_download_info'')"
    by (simp add: first_signal_def intent_priority_def)
  ultimately show ?thesis
    using main_intent_priority_order
      [of ner_example "''How to download wind speed in the format of NetCDF?''"]
    by (simp add: example_download_intents)
qed

subsection \<open>The response engine\<close>

lemma resolve_intent_values:
  "resolve_intent intents \<in> set [''get_download_info'', ''get_data_format'', ''get_time_resolution'',
     ''get_spatial_resolution'', ''get_applications'', ''get_services'', ''list_data_products'',
     ''summarize_info'', ''generate_use_cases'', ''get_details'', ''general_query'']"
  by (simp add: resolve_intent_def)

lemma main_intent_values:
  "main_intent (process_query nlp text) \<in> set [''get_download_info'', ''get_data_format'',
     ''get_time_resolution'', ''get_spatial_resolution'', ''get_applications'', ''get_services'',
     ''list_data_products'', ''summarize_info'', ''generate_use_cases'', ''get_details'',
     ''general_query'']"
proof -
  have "upgrade_intent i ents = i \<or> upgrade_intent i ents = ''get_details''" for i ents
    by (simp add: upgrade_intent_def)
  then show ?thesis
    using resolve_intent_values [of "scan_intents (keyword_scan nlp text)"]
    by (fastforce simp add: process_query_def Let_def)
qed

text \<open>
  Claim C9.  When the extractor classifies the text as \<open>get_time_resolution\<close> or
  \<open>get_spatial_resolution\<close>, no branch of \<open>generate_response\<close> takes the intent: the
  static fallback text is returned, no call is made on the knowledge store (nor on the
  client), and the memory is left as it was.
\<close>

theorem resolution_intents_unhandled:
  assumes "main_intent (process_query (svc_nlp svc) text) = ''get_time_resolution''
         \<or> main_intent (process_query (svc_nlp svc) text) = ''get_spatial_resolution''"
  shows "generate_response svc b text =
           \<lparr>outcome = Inr default_response, memory = b, calls = []\<rparr>"
  using assms by (auto simp add: generate_response_def Let_def dispatch_def)

lemma describe_entity_memory:
  "memory (describe_entity name d cs) =
     (case map_of (node d) ''description'' of
        None \<Rightarrow> cleared
      | Some description \<Rightarrow>
          if description = [] then cleared
          else \<lparr>last_detailed_response_content = Some description,
                last_detailed_entity_name =
                  Some (case map_of (node d) ''name'' of Some n \<Rightarrow> n | None \<Rightarrow> name)\<rparr>)"
  by (simp add: describe_entity_def Let_def truthy_def split: option.splits sum.splits)

lemma get_details_branch_memory:
  "memory (get_details_branch svc b ents) =
     (case described_entity svc ents of Some m \<Rightarrow> m | None \<Rightarrow> cleared)"
  by (simp add: get_details_branch_def described_entity_def describe_entity_memory
      split: option.splits prod.splits)

lemma list_data_products_branch_memory:
  "memory (list_data_products_branch svc b) = cleared"
  by (simp add: list_data_products_branch_def Let_def)

lemma get_data_format_branch_memory:
  "outcome (get_data_format_branch svc b ents) = Inr t \<Longrightarrow>
   memory (get_data_format_branch svc b ents) = cleared"
  by (auto simp add: get_data_format_branch_def Let_def split: option.splits prod.splits sum.splits if_splits)

lemma get_download_info_branch_memory:
  "outcome (get_download_info_branch svc b ents) = Inr t \<Longrightarrow>
   memory (get_download_info_branch svc b ents) = cleared"
  by (auto simp add: get_download_info_branch_def Let_def split: option.splits prod.splits sum.splits if_splits)

lemma get_applications_branch_memory:
  "outcome (get_applications_branch svc b ents) = Inr t \<Longrightarrow>
   memory (get_applications_branch svc b ents) = cleared"
  by (auto simp add: get_applications_branch_def Let_def split: option.splits prod.splits sum.splits if_splits)

lemma get_services_branch_memory:
  "outcome (get_services_branch svc b ents) = Inr t \<Longrightarrow>
   memory (get_services_branch svc b ents) = cleared"
  by (auto simp add: get_services_branch_def Let_def split: option.splits prod.splits sum.splits if_splits)

lemma summarize_info_branch_memory:
  "outcome (summarize_info_branch svc b) = Inr t \<Longrightarrow>
   memory (summarize_info_branch svc b) = cleared"
  by (auto simp add: summarize_info_branch_def Let_def split: option.splits prod.splits sum.splits if_splits)

lemma generate_use_cases_branch_memory:
  "outcome (generate_use_cases_branch svc b ents) = Inr t \<Longrightarrow>
   memory (generate_use_cases_branch svc b ents) = cleared"
  by (auto simp add: generate_use_cases_branch_def Let_def split: option.splits prod.splits sum.splits if_splits)

text \<open>
  Claim C2, as amended.  When \<open>generate_response\<close> returns a text: for the intent
  \<open>get_details\<close> the memory holds the description and the name of the entity if the
  lookup succeeded with a non-empty description, and is cleared on every other path of
  that branch; for the seven other intents with a branch it is cleared; for the three
  intents without a branch (\<open>general_query\<close>, \<open>get_time_resolution\<close>,
  \<open>get_spatial_resolution\<close>) it is left as it was.  The intent is always one of these
  eleven.
\<close>

theorem memory_after_response:
  assumes "outcome (generate_response svc b text) = Inr t"
  shows "(main_intent (process_query (svc_nlp svc) text) = ''get_details'' \<longrightarrow>
            memory (generate_response svc b text) =
              (case described_entity svc (entities (process_query (svc_nlp svc) text)) of
                 Some m \<Rightarrow> m | None \<Rightarrow> cleared))
       \<and> (main_intent (process_query (svc_nlp svc) text) \<in>
            set [''list_data_products'', ''get_data_format'', ''get_download_info'',
                 ''get_applications'', ''get_services'', ''summarize_info'',
                 ''generate_use_cases''] \<longrightarrow>
            memory (generate_response svc b text) = cleared)
       \<and> (main_intent (process_query (svc_nlp svc) text) \<in>
            set [''general_query'', ''get_time_resolution'', ''get_spatial_resolution''] \<longrightarrow>
            memory (generate_response svc b text) = b)
       \<and> main_intent (process_query (svc_nlp svc) text) \<in>
            set [''get_details'', ''list_data_products'', ''get_data_format'',
                 ''get_download_info'', ''get_applications'', ''get_services'',
                 ''summarize_info'', ''generate_use_cases'', ''general_query'',
                 ''get_time_resolution'', ''get_spatial_resolution'']"
proof (intro conjI impI)
  let ?i = "main_intent (process_query (svc_nlp svc) text)"
  let ?ents = "entities (process_query (svc_nlp svc) text)"
  have r: "generate_response svc b text = dispatch svc b ?i ?ents"
    by (simp add: generate_response_def Let_def)
  {
    assume "?i = ''get_details''"
    then show "memory (generate_response svc b text) =
              (case described_entity svc ?ents of Some m \<Rightarrow> m | None \<Rightarrow> cleared)"
      by (simp add: r dispatch_def get_details_branch_memory)
  }
  {
    assume i: "?i \<in> set [''list_data_products'', ''get_data_format'', ''get_download_info'',
                 ''get_applications'', ''get_services'', ''summarize_info'',
                 ''generate_use_cases'']"
    from assms have o: "outcome (dispatch svc b ?i ?ents) = Inr t"
      by (simp add: r)
    from i consider "?i = ''list_data_products''" | "?i = ''get_data_format''"
      | "?i = ''get_download_info''" | "?i = ''get_applications''" | "?i = ''get_services''"
      | "?i = ''summarize_info''" | "?i = ''generate_use_cases''"
      by auto
    then have "memory (dispatch svc b ?i ?ents) = cleared"
    proof cases
      case 1
      then show ?thesis by (simp add: dispatch_def list_data_products_branch_memory)
    next
      case 2
      with o show ?thesis by (simp add: dispatch_def get_data_format_branch_memory)
    next
      case 3
      with o show ?thesis by (simp add: dispatch_def get_download_info_branch_memory)
    next
      case 4
      with o show ?thesis by (simp add: dispatch_def get_applications_branch_memory)
    next
      case 5
      with o show ?thesis by (simp add: dispatch_def get_services_branch_memory)
    next
      case 6
      with o show ?thesis by (simp add: dispatch_def summarize_info_branch_memory)
    next
      case 7
      with o show ?thesis by (simp add: dispatch_def generate_use_cases_branch_memory)
    qed
    then show "memory (generate_response svc b text) = cleared"
      by (simp add: r)
  }
  {
    assume "?i \<in> set [''general_query'', ''get_time_resolution'', ''get_spatial_resolution'']"
    then show "memory (generate_response svc b text) = b"
      by (auto simp add: r dispatch_def)
  }
  show "?i \<in> set [''get_details'', ''list_data_products'', ''get_data_format'',
                 ''get_download_info'', ''get_applications'', ''get_services'',
                 ''summarize_info'', ''generate_use_cases'', ''general_query'',
                 ''get_time_resolution'', ''get_spatial_resolution'']"
    using main_intent_values [of "svc_nlp svc" "text"] by auto
qed

lemma ner_entities_no_kind:
  "L \<notin> set ner_labels \<Longrightarrow> filter (\<lambda>e. ent_label e = L) (ner_entities doc_ents) = []"
  by (auto simp add: ner_entities_def filter_empty_conv)

lemma use_case_text_intents:
  "scan_intents (keyword_scan nlp ''generate use cases for rainfall data'') = [''Query_UseCases'']"
  unfolding scan_intents_keyword_scan by code_simp

lemma use_case_text_intent:
  "main_intent (process_query nlp ''generate use cases for rainfall data'') = ''generate_use_cases''"
  by (simp add: process_query_def Let_def use_case_text_intents resolve_intent_def upgrade_intent_def)

lemma use_case_text_keywords:
  "map (\<lambda>(k, l). \<lparr>ent_text = k, ent_label = l, ent_type = ''Keyword''\<rparr>)
       (filter (\<lambda>(k, l). str_in k (str_lower ''generate use cases for rainfall data'')
                          \<and> \<not> startswith l ''Query_'' \<and> l \<in> set known_entity_labels)
          mosdac_keywords)
   = [\<lparr>ent_text = ''rainfall data'', ent_label = ''DataProduct'', ent_type = ''Keyword''\<rparr>,
      \<lparr>ent_text = ''rainfall'', ent_label = ''Parameter'', ent_type = ''Keyword''\<rparr>]"
  by code_simp

lemma use_case_text_data_product:
  "map_of (entities (process_query nlp ''generate use cases for rainfall data'')) ''DataProduct''
     = Some ''rainfall data''"
proof -
  let ?T = "''generate use cases for rainfall data''"
  let ?ents = "scan_entities (keyword_scan nlp ?T)"
  have kind: "''DataProduct'' \<in> set known_entity_labels"
    by (simp add: known_entity_labels_def KG_SCHEMA_nodes_def)
  have shape: "\<forall>e \<in> set ?ents. ent_label e \<in> set known_entity_labels \<or> ent_type e = ''NER''"
    using scan_entities_cases by blast
  have "''DataProduct'' \<notin> set ner_labels"
    by (simp add: ner_labels_def)
  then have "filter (\<lambda>e. ent_label e = ''DataProduct'') ?ents
      = [\<lparr>ent_text = ''rainfall data'', ent_label = ''DataProduct'', ent_type = ''Keyword''\<rparr>]"
    by (simp add: scan_entities_keyword_scan use_case_text_keywords ner_entities_no_kind)
  with refine_last_wins [OF kind shape, of "[]"]
  have "map_of (foldl refine_step [] ?ents) ''DataProduct'' = Some ''rainfall data''"
    by simp
  then show ?thesis
    by (simp add: process_query_def Let_def)
qed

lemma use_case_text_primary:
  "named_entity (find_primary_entity
      (entities (process_query nlp ''generate use cases for rainfall data''))
      [''DataProduct'', ''Satellite'', ''Parameter'', ''ApplicationArea''])
   = Some (''rainfall data'', ''DataProduct'')"
  by (simp add: find_primary_entity_def named_entity_def use_case_text_data_product)

lemma use_case_text_not_fallback:
  "use_case_header name @ t \<noteq> please_specify_use_cases"
  by (simp add: use_case_header_def sparkles_def please_specify_use_cases_def)

text \<open>
  Claim C4, as amended.  For the input "generate use cases for rainfall data" the
  extractor yields the intent \<open>generate_use_cases\<close> and the data product
  "rainfall data", whatever the recogniser tags.  So \<open>generate_response\<close> looks the
  entity up and then calls the client with the use-case prompt; when the lookup finds
  nothing the prompt is built on the generic context "data related to rainfall data".
  The "please specify" message is not returned, whatever the store holds and whatever
  the client does.  When the client returns a text, the response is the use-case header
  followed by that text and the memory is cleared.
\<close>

theorem use_cases_for_rainfall_data:
  "main_intent (process_query (svc_nlp svc) ''generate use cases for rainfall data'')
     = ''generate_use_cases''
   \<and> map_of (entities (process_query (svc_nlp svc) ''generate use cases for rainfall data''))
        ''DataProduct'' = Some ''rainfall data''
   \<and> calls (generate_response svc b ''generate use cases for rainfall data'') =
     [KG_entity_details ''rainfall data'' (Some ''DataProduct''),
      LLM (use_case_prompt ''rainfall data'' ''DataProduct''
             (use_case_context ''rainfall data''
                (svc_entity_details svc ''rainfall data'' (Some ''DataProduct''))))]
   \<and> (svc_entity_details svc ''rainfall data'' (Some ''DataProduct'') = None \<longrightarrow>
        use_case_context ''rainfall data''
          (svc_entity_details svc ''rainfall data'' (Some ''DataProduct''))
        = ''data related to rainfall data'')
   \<and> outcome (generate_response svc b ''generate use cases for rainfall data'')
        \<noteq> Inr please_specify_use_cases
   \<and> (\<forall>t. svc_llm svc (use_case_prompt ''rainfall data'' ''DataProduct''
                (use_case_context ''rainfall data''
                   (svc_entity_details svc ''rainfall data'' (Some ''DataProduct'')))) = Inr t \<longrightarrow>
          outcome (generate_response svc b ''generate use cases for rainfall data'')
            = Inr (use_case_header ''rainfall data'' @ t)
        \<and> memory (generate_response svc b ''generate use cases for rainfall data'') = cleared)"
proof -
  let ?T = "''generate use cases for rainfall data''"
  let ?prompt = "use_case_prompt ''rainfall data'' ''DataProduct''
             (use_case_context ''rainfall data''
                (svc_entity_details svc ''rainfall data'' (Some ''DataProduct'')))"
  have r: "generate_response svc b ?T =
      generate_use_cases_branch svc b (entities (process_query (svc_nlp svc) ?T))"
    by (simp add: generate_response_def Let_def dispatch_def use_case_text_intent)
  have branch: "generate_use_cases_branch svc b (entities (process_query (svc_nlp svc) ?T)) =
      (case svc_llm svc ?prompt of
         Inl e \<Rightarrow> \<lparr>outcome = Inl e, memory = b,
                    calls = [KG_entity_details ''rainfall data'' (Some ''DataProduct''),
                             LLM ?prompt]\<rparr>
       | Inr t \<Rightarrow> \<lparr>outcome = Inr (use_case_header ''rainfall data'' @ t), memory = cleared,
                    calls = [KG_entity_details ''rainfall data'' (Some ''DataProduct''),
                             LLM ?prompt]\<rparr>)"
    by (simp add: generate_use_cases_branch_def use_case_text_primary Let_def
        split: sum.splits)
  have not_fallback: "outcome (generate_response svc b ?T) \<noteq> Inr please_specify_use_cases"
    unfolding r branch
    by (cases "svc_llm svc ?prompt") (simp_all add: use_case_text_not_fallback)
  have made: "calls (generate_response svc b ?T) =
      [KG_entity_details ''rainfall data'' (Some ''DataProduct''), LLM ?prompt]"
    unfolding r branch by (cases "svc_llm svc ?prompt") simp_all
  have returned: "\<forall>t. svc_llm svc ?prompt = Inr t \<longrightarrow>
          outcome (generate_response svc b ?T) = Inr (use_case_header ''rainfall data'' @ t)
        \<and> memory (generate_response svc b ?T) = cleared"
    unfolding r branch by simp
  have generic: "svc_entity_details svc ''rainfall data'' (Some ''DataProduct'') = None \<longrightarrow>
        use_case_context ''rainfall data''
          (svc_entity_details svc ''rainfall data'' (Some ''DataProduct''))
        = ''data related to rainfall data''"
    by (simp add: use_case_context_def)
  from use_case_text_intent [of "svc_nlp svc"] use_case_text_data_product [of "svc_nlp svc"]
    made generic not_fallback returned
  show ?thesis by blast
qed

lemma source_client_raises:
  "svc_llm (isro_services nlp st kg related listing post) p = Inl AttributeError"
  by (simp add: isro_services_def call_gemini_llm_def list_push_def)

text \<open>
  Claim C3 fails on the code.  Let the intent be \<open>summarize_info\<close> and the memory hold
  content.  The bot as \<open>__init__\<close> builds it then calls \<open>_call_gemini_llm\<close>, which
  raises \<open>AttributeError\<close> at \<open>chat_history.push\<close> before any request is sent, whatever
  the web service would do, a time-out included.  The exception leaves
  \<open>generate_response\<close>: no text is returned, and the two lines that clear the memory
  are not reached, so the memory keeps its content.
\<close>

theorem summarize_raises_before_request:
  assumes "main_intent (process_query nlp text) = ''summarize_info''"
      and "truthy (last_detailed_response_content b)"
  shows "generate_response (isro_services nlp st kg related listing post) b text =
           \<lparr>outcome = Inl AttributeError, memory = b, calls = [LLM (summarize_prompt b)]\<rparr>"
proof -
  have nlp: "svc_nlp (isro_services nlp st kg related listing post) = nlp"
    by (simp add: isro_services_def)
  show ?thesis
    using assms
    by (simp add: generate_response_def Let_def dispatch_def summarize_info_branch_def nlp
        source_client_raises)
qed

text \<open>
  Claim C4 as stated fails.  On a reachable store without any entity the lookup of
  "rainfall data" finds nothing, and the bot still calls the client with the use-case
  prompt on the generic context; what comes back is not the "please specify" message.
\<close>

theorem use_cases_without_entity_counterexample:
  "fst (get_entity_details empty_store \<lparr>driver = True\<rparr> ''rainfall data'' (Some ''DataProduct'')) = None
   \<and> calls (generate_response (example_bot empty_store) cleared
              ''generate use cases for rainfall data'')
     = [KG_entity_details ''rainfall data'' (Some ''DataProduct''),
        LLM (use_case_prompt ''rainfall data'' ''DataProduct'' ''data related to rainfall data'')]
   \<and> outcome (generate_response (example_bot empty_store) cleared
                ''generate use cases for rainfall data'')
       \<noteq> Inr please_specify_use_cases"
  by code_simp

text \<open>
  Claim C4, amended, on the store without entities: for the bot as it is built, and for
  the same bot with a client that answers.
\<close>

theorem use_cases_for_rainfall_data_witness:
  "main_intent (process_query ner_example ''generate use cases for rainfall data'')
     = ''generate_use_cases''
   \<and> map_of (entities (process_query ner_example ''generate use cases for rainfall data''))
        ''DataProduct'' = Some ''rainfall data''
   \<and> calls (generate_response (example_bot empty_store) example_memory
              ''generate use cases for rainfall data'')
     = [KG_entity_details ''rainfall data'' (Some ''DataProduct''),
        LLM (use_case_prompt ''rainfall data'' ''DataProduct'' ''data related to rainfall data'')]
   \<and> outcome (generate_response (example_bot empty_store) example_memory
                ''generate use cases for rainfall data'')
       \<noteq> Inr please_specify_use_cases
   \<and> outcome (generate_response (with_client (answering_client ''- Monitor monsoon onset.'')
            (example_bot empty_store)) example_memory ''generate use cases for rainfall data'')
     = Inr (use_case_header ''rainfall data'' @ ''- Monitor monsoon onset.'')
   \<and> memory (generate_response (with_client (answering_client ''- Monitor monsoon onset.'')
            (example_bot empty_store)) example_memory ''generate use cases for rainfall data'')
     = cleared"
proof -
  let ?bot = "example_bot empty_store"
  let ?svc = "with_client (answering_client ''- Monitor monsoon onset.'') (example_bot empty_store)"
  note built = use_cases_for_rainfall_data [of ?bot example_memory]
  note inst = use_cases_for_rainfall_data [of ?svc example_memory]
  have nlp: "svc_nlp ?bot = ner_example"
    by (simp add: example_bot_def isro_services_def)
  have none: "svc_entity_details ?bot ''rainfall data'' (Some ''DataProduct'') = None"
    by code_simp
  have answer: "svc_llm ?svc p = Inr ''- Monitor monsoon onset.''" for p
    by (simp add: with_client_def answering_client_def)
  from built none have ctx: "use_case_context ''rainfall data''
          (svc_entity_details ?bot ''rainfall data'' (Some ''DataProduct''))
        = ''data related to rainfall data''"
    by blast
  from built nlp have a:
    "main_intent (process_query ner_example ''generate use cases for rainfall data'')
       = ''generate_use_cases''
     \<and> map_of (entities (process_query ner_example ''generate use cases for rainfall data''))
        ''DataProduct'' = Some ''rainfall data''"
    by simp
  from built ctx have b:
    "calls (generate_response ?bot example_memory ''generate use cases for rainfall data'')
     = [KG_entity_details ''rainfall data'' (Some ''DataProduct''),
        LLM (use_case_prompt ''rainfall data'' ''DataProduct'' ''data related to rainfall data'')]"
    by simp
  from built have c:
    "outcome (generate_response ?bot example_memory ''generate use cases for rainfall data'')
       \<noteq> Inr please_specify_use_cases"
    by blast
  from inst answer have d:
    "outcome (generate_response ?svc example_memory ''generate use cases for rainfall data'')
            = Inr (use_case_header ''rainfall data'' @ ''- Monitor monsoon onset.'')
     \<and> memory (generate_response ?svc example_memory ''generate use cases for rainfall data'')
            = cleared"
    by blast
  from a b c d show ?thesis by blast
qed

text \<open>
  Claim C3 at its scenario: the memory holds a description, the request is
  "summarize that", and the web service cannot be reached.  The bot raises, returns no
  apology, and the memory is not cleared.
\<close>

theorem summarize_raises_before_request_witness:
  "generate_response (offline_bot example_store) example_memory ''summarize that''
     = \<lparr>outcome = Inl AttributeError, memory = example_memory,
        calls = [LLM (summarize_prompt example_memory)]\<rparr>
   \<and> example_memory \<noteq> cleared"
proof -
  have a: "main_intent (process_query ner_example ''summarize that'') = ''summarize_info''"
    by code_simp
  have b: "truthy (last_detailed_response_content example_memory)"
    by code_simp
  have c: "example_memory \<noteq> cleared"
    by code_simp
  from summarize_raises_before_request [OF a b, of example_store "\<lparr>driver = True\<rparr>"
      "\<lambda>name label rel target. []" "\<lambda>query. []" "\<lambda>chat_history. NetworkFailure"] c
  show ?thesis
    by (simp add: offline_bot_def)
qed

text \<open>
  Claim C2 as stated fails.  A greeting is classified \<open>general_query\<close>, which has no
  branch: the fallback text is returned and the memory keeps its content instead of being
  cleared.
\<close>

theorem memory_kept_counterexample:
  "main_intent (process_query ner_example ''Hello there'') = ''general_query''
   \<and> generate_response (example_bot example_store) example_memory ''Hello there''
     = \<lparr>outcome = Inr default_response, memory = example_memory, calls = []\<rparr>
   \<and> example_memory \<noteq> cleared"
  by code_simp

text \<open>
  Claim C2, amended, on three requests: a lookup that succeeds with a description (on a
  manager whose lookup works), a listing of products, and a greeting.
\<close>

theorem memory_after_response_witness:
  "memory (generate_response (unlabelled_lookup example_store (example_bot example_store))
             cleared ''Tell me about sea surface temperature data'') = example_memory
   \<and> memory (generate_response (example_bot example_store) example_memory
             ''What data products does MOSDAC provide?'') = cleared
   \<and> memory (generate_response (example_bot example_store) example_memory ''Hello there'')
       = example_memory"
proof -
  let ?svc1 = "unlabelled_lookup example_store (example_bot example_store)"
  let ?svc = "example_bot example_store"
  let ?t1 = "''Tell me about sea surface temperature data''"
  let ?t2 = "''What data products does MOSDAC provide?''"
  let ?t3 = "''Hello there''"
  have "\<not> isl (outcome (generate_response ?svc1 cleared ?t1))" by code_simp
  then obtain x1 where r1: "outcome (generate_response ?svc1 cleared ?t1) = Inr x1"
    by (cases "outcome (generate_response ?svc1 cleared ?t1)") auto
  have "\<not> isl (outcome (generate_response ?svc example_memory ?t2))" by code_simp
  then obtain x2 where r2: "outcome (generate_response ?svc example_memory ?t2) = Inr x2"
    by (cases "outcome (generate_response ?svc example_memory ?t2)") auto
  have "\<not> isl (outcome (generate_response ?svc example_memory ?t3))" by code_simp
  then obtain x3 where r3: "outcome (generate_response ?svc example_memory ?t3) = Inr x3"
    by (cases "outcome (generate_response ?svc example_memory ?t3)") auto
  have i1: "main_intent (process_query (svc_nlp ?svc1) ?t1) = ''get_details''" by code_simp
  have d1: "(case described_entity ?svc1 (entities (process_query (svc_nlp ?svc1) ?t1)) of
               Some m \<Rightarrow> m | None \<Rightarrow> cleared) = example_memory" by code_simp
  have i2: "main_intent (process_query (svc_nlp ?svc) ?t2) \<in>
            set [''list_data_products'', ''get_data_format'', ''get_download_info'',
                 ''get_applications'', ''get_services'', ''summarize_info'',
                 ''generate_use_cases'']" by code_simp
  have i3: "main_intent (process_query (svc_nlp ?svc) ?t3) \<in>
            set [''general_query'', ''get_time_resolution'', ''get_spatial_resolution'']"
    by code_simp
  from memory_after_response [OF r1] i1 d1
  have "memory (generate_response ?svc1 cleared ?t1) = example_memory" by simp
  moreover from memory_after_response [OF r2] i2
  have "memory (generate_response ?svc example_memory ?t2) = cleared" by blast
  moreover from memory_after_response [OF r3] i3
  have "memory (generate_response ?svc example_memory ?t3) = example_memory" by blast
  ultimately show ?thesis by blast
qed

text \<open>
  Claim C9 on a question about the time resolution of a satellite: "what is" is a
  signal for details, "time resolution" has priority.
\<close>

theorem resolution_intents_unhandled_witness:
  "generate_response (example_bot example_store) example_memory
     ''What is the time resolution of INSAT-3D data?''
   = \<lparr>outcome = Inr default_response, memory = example_memory, calls = []\<rparr>"
proof -
  have "main_intent (process_query (svc_nlp (example_bot example_store))
           ''What is the time resolution of INSAT-3D data?'') = ''get_time_resolution''"
    by code_simp
  then show ?thesis
    using resolution_intents_unhandled [of "example_bot example_store"
        "''What is the time resolution of INSAT-3D data?''" example_memory]
    by blast
qed

text \<open>
  Claim C1 fails on the code.  \<open>_call_gemini_llm\<close> raises \<open>AttributeError\<close> for every
  prompt and every behaviour of the web service, and the exception reaches
  \<open>generate_response\<close>: with a description in the memory, the request "summarize that"
  raises and the memory is not cleared.
\<close>

theorem call_gemini_llm_raises:
  "call_gemini_llm post prompt = Inl AttributeError
   \<and> generate_response (example_bot example_store) example_memory ''summarize that''
     = \<lparr>outcome = Inl AttributeError, memory = example_memory,
        calls = [LLM (summarize_prompt example_memory)]\<rparr>"
proof
  show "call_gemini_llm post prompt = Inl AttributeError"
    by (simp add: call_gemini_llm_def list_push_def)
  show "generate_response (example_bot example_store) example_memory ''summarize that''
     = \<lparr>outcome = Inl AttributeError, memory = example_memory,
        calls = [LLM (summarize_prompt example_memory)]\<rparr>"
    by code_simp
qed

subsection \<open>The lookup of the knowledge graph manager\<close>

lemma label_pattern_rejected: "parse_node_pattern ''(n:{label})'' = None"
  by code_simp

lemma match_clause_label: "l \<noteq> [] \<Longrightarrow> match_clause (Some l) = ''(n:{label})''"
  by (simp add: match_clause_def truthy_def)

lemma get_entity_details_first_record:
  "fst (get_entity_details st kg entity_name entity_label) =
     (case fst (execute_query st kg
                  (\<lambda>st. run_entity_details st (match_clause entity_label)
                           (entity_details_params entity_name entity_label))) of
        [] \<Rightarrow> None
      | record # rest \<Rightarrow> Some record)"
  by (simp add: get_entity_details_def split: prod.splits list.splits)

lemma labelled_lookup_finds_nothing:
  assumes "l \<noteq> []"
  shows "fst (get_entity_details st kg entity_name (Some l)) = None"
proof -
  let ?run = "\<lambda>st. run_entity_details st (match_clause (Some l))
                      (entity_details_params entity_name (Some l))"
  have "?run st = Inl ServiceUnavailable \<or> ?run st = Inl CypherSyntaxError"
    using assms
    by (simp add: run_entity_details_def match_clause_label label_pattern_rejected)
  then have "fst (execute_query st kg ?run) = []"
    by (auto simp add: execute_query_def Let_def)
  then show ?thesis
    by (simp add: get_entity_details_first_record)
qed

lemma first_row:
  "(case take 1 (map f (filter P xs)) of [] \<Rightarrow> None | r # rest \<Rightarrow> Some r)
     = map_option f (find P xs)"
  by (induction xs) simp_all

lemma unlabelled_lookup_first_match:
  assumes "reachable st"
  shows "fst (get_entity_details st kg entity_name None) =
           map_option (details_row st)
             (find (\<lambda>i. node_matches None entity_name (graph_nodes st ! i))
                [0 ..< length (graph_nodes st)])"
proof -
  have run: "run_entity_details st (match_clause None) (entity_details_params entity_name None)
      = Inr (take 1 (map (details_row st)
                      (filter (\<lambda>i. node_matches None entity_name (graph_nodes st ! i))
                         [0 ..< length (graph_nodes st)])))"
    using assms
    by (simp add: run_entity_details_def match_clause_def truthy_def parse_node_pattern_def
        entity_details_params_def)
  have "fst (execute_query st kg (\<lambda>st. run_entity_details st (match_clause None)
          (entity_details_params entity_name None)))
      = take 1 (map (details_row st)
                      (filter (\<lambda>i. node_matches None entity_name (graph_nodes st ! i))
                         [0 ..< length (graph_nodes st)]))"
    using assms run by (auto simp add: execute_query_def Let_def connect_def)
  then show ?thesis
    using first_row [of "details_row st"
        "\<lambda>i. node_matches None entity_name (graph_nodes st ! i)" "[0 ..< length (graph_nodes st)]"]
    by (simp add: get_entity_details_first_record)
qed

lemma unlabelled_lookup_none_iff:
  assumes "reachable st"
  shows "fst (get_entity_details st kg entity_name None) = None
     \<longleftrightarrow> \<not> (\<exists>n \<in> set (graph_nodes st). node_matches None entity_name n)"
proof -
  have "(find (\<lambda>i. node_matches None entity_name (graph_nodes st ! i))
                [0 ..< length (graph_nodes st)] = None)
      \<longleftrightarrow> \<not> (\<exists>n \<in> set (graph_nodes st). node_matches None entity_name n)"
    by (auto simp add: find_None_iff in_set_conv_nth) (metis nth_mem)
  then show ?thesis
    by (simp add: unlabelled_lookup_first_match [OF assms])
qed

lemma unreachable_lookup_finds_nothing:
  assumes "\<not> reachable st"
  shows "fst (get_entity_details st kg entity_name entity_label) = None"
  using assms
  by (auto simp add: get_entity_details_def execute_query_def Let_def connect_def
      run_entity_details_def split: prod.splits list.splits sum.splits)

text \<open>
  Claim C5 fails on the code when a label is given.  The store can be reached and holds
  the data product "Sea Surface Temperature", whose name contains the query; without a
  label the lookup returns it with its two relationships, with the label "DataProduct"
  it returns \<open>None\<close>.  The node pattern sent is the text \<open>(n:{label})\<close> whatever the
  label (\<open>match_clause_label\<close>), which the engine rejects, and \<open>_execute_query\<close> turns
  the error into an empty result (\<open>labelled_lookup_finds_nothing\<close>).
\<close>

theorem get_entity_details_label_slip:
  "node_matches (Some ''DataProduct'') ''sea surface temperature'' (graph_nodes example_store ! 1)
   \<and> fst (get_entity_details example_store \<lparr>driver = True\<rparr> ''sea surface temperature''
            (Some ''DataProduct'')) = None
   \<and> fst (get_entity_details example_store \<lparr>driver = True\<rparr> ''sea surface temperature'' None)
     = Some \<lparr>node = [(''name'', ''Sea Surface Temperature''),
                     (''description'', ''Global daily sea surface temperature anomaly data.''),
                     (''update_frequency'', ''Daily'')],
             relationships =
               [\<lparr>rel_type = Some ''FROM_SATELLITE'', target_name = Some ''INSAT-3D'',
                 target_label = Some ''Satellite'', relationship_props = Some []\<rparr>,
                \<lparr>rel_type = Some ''PROVIDES'', target_name = Some ''Temperature'',
                 target_label = Some ''Parameter'', relationship_props = Some []\<rparr>]\<rparr>
   \<and> match_clause (Some ''DataProduct'') = match_clause (Some ''Satellite'')"
  by code_simp

end
